theory Spec2Isabelle
  imports Main "HOL-Library.Sublist"
begin

section \<open>JavaScript data\<close>

text \<open>
  The library is TypeScript running on the JavaScript platform. The values that request
  bodies, request options and decoded response bodies range over are modelled as trees of
  JSON-like data. Numbers are restricted to integers (printed in plain decimal, as JavaScript
  does below \<open>10^21\<close>); strings are lists of 8-bit characters. An object is the list of
  its own enumerable properties in insertion order (keys that look like array indices,
  which JavaScript enumerates first, are not treated apart).

  The platform is modelled as far as the library uses it: promises with their reactions
  and the microtask queue after ECMAScript, the stores of \<open>svelte/store\<close>, \<open>fetch\<close>
  and \<open>Response\<close>, \<open>JSON.stringify\<close>. Callbacks of the caller are functions from the
  argument to a returned or thrown value; what else they do is not modelled, but each
  call is recorded.
\<close>

datatype json =
    JUndefined
  | JNull
  | JBool bool
  | JNum int
  | JStr string
  | JArr "json list"
  | JObj "(string \<times> json) list"

type_synonym obj = "(string \<times> json) list"

text \<open>Property assignment \<open>o[k] = v\<close>: an existing key keeps its position.\<close>

fun obj_set :: "string \<Rightarrow> json \<Rightarrow> obj \<Rightarrow> obj" where
  "obj_set k v [] = [(k, v)]"
| "obj_set k v ((k', v') # kvs) =
     (if k' = k then (k, v) # kvs else (k', v') # obj_set k v kvs)"

text \<open>
  Copying the own properties of \<open>src\<close> onto \<open>target\<close>, in order; the object literal
  \<open>{...a, ...b}\<close> is \<open>spread (spread [] a) b\<close>.
\<close>

definition spread :: "obj \<Rightarrow> obj \<Rightarrow> obj" where
  "spread target src = fold (\<lambda>(k, v). obj_set k v) src target"

text \<open>Property read; \<open>None\<close> is an absent property.\<close>

definition obj_get :: "obj \<Rightarrow> string \<Rightarrow> json option" where
  "obj_get ob k = map_of ob k"

subsection \<open>\<open>JSON.stringify\<close>\<close>

text \<open>
  The platform's serialiser, following ECMAScript's SerializeJSONProperty on the data above:
  \<open>undefined\<close> has no serialisation (\<open>None\<close>); inside an array it prints as
  \<open>null\<close>, inside an object its property is left out.
\<close>

definition digit_char :: "nat \<Rightarrow> char" where
  "digit_char d = ''0123456789abcdef'' ! (d mod 16)"

fun show_nat :: "nat \<Rightarrow> string" where
  "show_nat n = (if n < 10 then [digit_char n] else show_nat (n div 10) @ [digit_char (n mod 10)])"

declare show_nat.simps [simp del]

definition show_int :: "int \<Rightarrow> string" where
  "show_int i = (if i < 0 then ''-'' @ show_nat (nat (- i)) else show_nat (nat i))"

definition quote_char :: "char \<Rightarrow> string" where
  "quote_char c =
     (if c = CHR 0x22 then [CHR 0x5C, CHR 0x22]
      else if c = CHR 0x5C then [CHR 0x5C, CHR 0x5C]
      else if c = CHR 0x08 then [CHR 0x5C, CHR ''b'']
      else if c = CHR 0x09 then [CHR 0x5C, CHR ''t'']
      else if c = CHR 0x0A then [CHR 0x5C, CHR ''n'']
      else if c = CHR 0x0C then [CHR 0x5C, CHR ''f'']
      else if c = CHR 0x0D then [CHR 0x5C, CHR ''r'']
      else if (of_char c :: nat) < 32
        then [CHR 0x5C, CHR ''u'', CHR ''0'', CHR ''0'',
              digit_char (of_char c div 16), digit_char (of_char c mod 16)]
      else [c])"

definition quote :: "string \<Rightarrow> string" where
  "quote s = [CHR 0x22] @ concat (map quote_char s) @ [CHR 0x22]"

fun join :: "string \<Rightarrow> string list \<Rightarrow> string" where
  "join sep [] = []"
| "join sep [x] = x"
| "join sep (x # y # ys) = x @ sep @ join sep (y # ys)"

fun stringify :: "json \<Rightarrow> string option"
  and stringify_elements :: "json list \<Rightarrow> string list"
  and stringify_members :: "(string \<times> json) list \<Rightarrow> string list" where
  "stringify JUndefined = None"
| "stringify JNull = Some ''null''"
| "stringify (JBool b) = Some (if b then ''true'' else ''false'')"
| "stringify (JNum n) = Some (show_int n)"
| "stringify (JStr s) = Some (quote s)"
| "stringify (JArr xs) = Some (''['' @ join '','' (stringify_elements xs) @ '']'')"
| "stringify (JObj kvs) = Some (''{'' @ join '','' (stringify_members kvs) @ ''}'')"
| "stringify_elements [] = []"
| "stringify_elements (x # xs) =
     (case stringify x of None \<Rightarrow> ''null'' | Some s \<Rightarrow> s) # stringify_elements xs"
| "stringify_members [] = []"
| "stringify_members ((k, v) # kvs) =
     (case stringify v of None \<Rightarrow> stringify_members kvs
      | Some s \<Rightarrow> (quote k @ '':'' @ s) # stringify_members kvs)"

text \<open>\<open>String.prototype.includes\<close>: \<open>sub\<close> occurs in \<open>s\<close> as a contiguous run.\<close>

fun str_includes :: "string \<Rightarrow> string \<Rightarrow> bool" where
  "str_includes [] sub = (sub = [])"
| "str_includes (c # cs) sub = (prefix sub (c # cs) \<or> str_includes cs sub)"

section \<open>Run-time values, promises and the microtask queue\<close>

text \<open>
  A \<open>Response\<close> is a platform object. The model keeps what the library reads from it:
  the success flag, the status, the status text, the headers (names in lower case, as the
  \<open>Headers\<close> class normalises them) and what reading the body produces: \<open>json_read\<close>
  is the outcome of \<open>response.json()\<close> and \<open>text_read\<close> that of
  \<open>response.text()\<close>, \<open>Inl\<close> carrying the name of the error the read rejects with.
\<close>

record response =
  ok :: bool
  status :: int
  statusText :: string
  headers :: "(string \<times> string) list"
  json_read :: "string + json"
  text_read :: "string + string"

text \<open>
  Values that promises settle with and observers receive. \<open>HttpError\<close> is the class of
  the source with its fields \<open>name\<close>, \<open>message\<close>, \<open>status\<close>, \<open>statusText\<close>
  and \<open>body\<close>, in this order; \<open>Err\<close> is any other error object, by name;
  \<open>PromiseRef\<close> is a reference to a promise of the heap.
\<close>

datatype jsvalue =
    Data json
  | Resp response
  | HttpError string string int string jsvalue
  | Err string
  | PromiseRef nat

text \<open>The constructor of \<open>HttpError\<close>: \<open>super(statusText)\<close> sets the message.\<close>

definition new_HttpError :: "int \<Rightarrow> string \<Rightarrow> jsvalue \<Rightarrow> jsvalue" where
  "new_HttpError st stt b = HttpError ''HttpError'' stt st stt b"

text \<open>
  A caller-supplied callback is a label, recorded when the callback is invoked, and a
  function from the argument to the way the call completes. A callback may return a
  reference to a promise of the heap.
\<close>

datatype completion = Return jsvalue | Throw jsvalue

type_synonym callback = "jsvalue \<Rightarrow> completion"

text \<open>
  The functions that are handed to \<open>then\<close>. \<open>NoHandler\<close> is \<open>undefined\<close> or
  \<open>null\<close>; \<open>User\<close> is a callback of the caller; \<open>ErrorHandled\<close> is the async arrow
  function of \<open>fetchErrorHandled$\<close>, \<open>AfterBody\<close> and \<open>AfterBodyFailed\<close> are its
  continuations after \<open>await\<close>; \<open>JsonUnwrap\<close> is the arrow function of \<open>fetchJson$\<close>;
  \<open>StoreSet\<close> is the arrow function of \<open>subscribe\<close> that calls \<open>set\<close>. The others are
  the platform's: the two closures of \<open>Promise.prototype.finally\<close> with their value thunk
  and thrower, and the resolving functions of a promise.
\<close>

datatype handler =
    NoHandler
  | User string callback
  | ErrorHandled
  | AfterBody int string nat
  | AfterBodyFailed nat
  | JsonUnwrap
  | StoreSet nat
  | ThenFinally string callback
  | CatchFinally string callback
  | ValueThunk jsvalue
  | Thrower jsvalue
  | ResolveFn nat
  | RejectFn nat

datatype reaction = Reaction handler handler "nat option"

datatype pstate = Pending "reaction list" | Fulfilled jsvalue | Rejected jsvalue

datatype rtype = OnFulfill | OnReject

datatype job = ReactionJob rtype handler "nat option" jsvalue | ThenableJob nat nat

text \<open>
  What can be observed from outside: a request handed to \<open>fetch\<close>, a callback of the
  caller invoked with an argument, an observer's \<open>run\<close> invoked with a value, an
  observer's \<open>invalidate\<close> invoked.
\<close>

datatype event =
    Requested string "obj option"
  | Called string jsvalue
  | Ran string jsvalue
  | Invalidated string

text \<open>
  A store of \<open>svelte/store\<close>: its value, whether \<open>stop\<close> is set, its subscribers
  (an identity, the label of \<open>run\<close> and the label of \<open>invalidate\<close>, \<open>None\<close> for
  \<open>noop\<close>), and the promise its start function listens to.
\<close>

record store =
  store_value :: jsvalue
  store_stop :: bool
  store_subscribers :: "(nat \<times> string \<times> string option) list"
  store_next :: nat
  store_start :: nat

record world =
  heap :: "pstate list"
  queue :: "job list"
  trace :: "event list"
  stores :: "store list"

definition lookup_promise :: "world \<Rightarrow> nat \<Rightarrow> pstate option" where
  "lookup_promise w p = (if p < length (heap w) then Some (heap w ! p) else None)"

definition new_promise :: "pstate \<Rightarrow> world \<Rightarrow> nat \<times> world" where
  "new_promise st w = (length (heap w), w\<lparr>heap := heap w @ [st]\<rparr>)"

definition fulfill_job :: "jsvalue \<Rightarrow> reaction \<Rightarrow> job" where
  "fulfill_job v r = (case r of Reaction onf onr cap \<Rightarrow> ReactionJob OnFulfill onf cap v)"

definition reject_job :: "jsvalue \<Rightarrow> reaction \<Rightarrow> job" where
  "reject_job e r = (case r of Reaction onf onr cap \<Rightarrow> ReactionJob OnReject onr cap e)"

text \<open>Settling a pending promise queues a job for each of its reactions; a settled promise stays as it is.\<close>

definition fulfill_promise :: "nat \<Rightarrow> jsvalue \<Rightarrow> world \<Rightarrow> world" where
  "fulfill_promise p v w =
     (case lookup_promise w p of
        Some (Pending rs) \<Rightarrow>
          w\<lparr>heap := (heap w)[p := Fulfilled v], queue := queue w @ map (fulfill_job v) rs\<rparr>
      | _ \<Rightarrow> w)"

definition reject_promise :: "nat \<Rightarrow> jsvalue \<Rightarrow> world \<Rightarrow> world" where
  "reject_promise p e w =
     (case lookup_promise w p of
        Some (Pending rs) \<Rightarrow>
          w\<lparr>heap := (heap w)[p := Rejected e], queue := queue w @ map (reject_job e) rs\<rparr>
      | _ \<Rightarrow> w)"

text \<open>
  Resolving a promise with a value: with itself is a \<open>TypeError\<close>, with another promise
  queues the job that will follow that promise, with anything else fulfils.
\<close>

definition resolve_promise :: "nat \<Rightarrow> jsvalue \<Rightarrow> world \<Rightarrow> world" where
  "resolve_promise p x w =
     (case x of
        PromiseRef q \<Rightarrow>
          if q = p then reject_promise p (Err ''TypeError'') w
          else w\<lparr>queue := queue w @ [ThenableJob p q]\<rparr>
      | _ \<Rightarrow> fulfill_promise p x w)"

text \<open>PerformPromiseThen: a reaction is stored on a pending promise, queued on a settled one.\<close>

definition perform_then :: "nat \<Rightarrow> handler \<Rightarrow> handler \<Rightarrow> nat option \<Rightarrow> world \<Rightarrow> world" where
  "perform_then p onf onr cap w =
     (case lookup_promise w p of
        Some (Pending rs) \<Rightarrow> w\<lparr>heap := (heap w)[p := Pending (rs @ [Reaction onf onr cap])]\<rparr>
      | Some (Fulfilled v) \<Rightarrow> w\<lparr>queue := queue w @ [ReactionJob OnFulfill onf cap v]\<rparr>
      | Some (Rejected e) \<Rightarrow> w\<lparr>queue := queue w @ [ReactionJob OnReject onr cap e]\<rparr>
      | None \<Rightarrow> w)"

text \<open>\<open>p.then(onf, onr)\<close> returns a new promise, the capability of the reaction.\<close>

definition promise_then :: "nat \<Rightarrow> handler \<Rightarrow> handler \<Rightarrow> world \<Rightarrow> nat \<times> world" where
  "promise_then p onf onr w =
     (let (d, w1) = new_promise (Pending []) w in (d, perform_then p onf onr (Some d) w1))"

definition promise_catch :: "nat \<Rightarrow> handler \<Rightarrow> world \<Rightarrow> nat \<times> world" where
  "promise_catch p onr w = promise_then p NoHandler onr w"

text \<open>
  \<open>p.finally(f)\<close>: a callable \<open>f\<close> is wrapped into the two closures; anything else is
  passed to \<open>then\<close> as it is, where it counts as no handler.
\<close>

definition promise_finally :: "nat \<Rightarrow> handler \<Rightarrow> world \<Rightarrow> nat \<times> world" where
  "promise_finally p onfinally w =
     (case onfinally of
        User n f \<Rightarrow> promise_then p (ThenFinally n f) (CatchFinally n f) w
      | _ \<Rightarrow> promise_then p NoHandler NoHandler w)"

text \<open>PromiseResolve: a promise is returned as it is, another value in a new fulfilled promise.\<close>

definition promise_resolve :: "jsvalue \<Rightarrow> world \<Rightarrow> nat \<times> world" where
  "promise_resolve x w =
     (case x of PromiseRef q \<Rightarrow> (q, w) | _ \<Rightarrow> new_promise (Fulfilled x) w)"

text \<open>\<open>fetch(input, init)\<close> hands the request to the network and returns a pending promise.\<close>

definition fetch :: "string \<Rightarrow> obj option \<Rightarrow> world \<Rightarrow> nat \<times> world" where
  "fetch input init w =
     new_promise (Pending []) (w\<lparr>trace := trace w @ [Requested input init]\<rparr>)"

text \<open>Reading the body of a response returns a promise settled with what the read produces.\<close>

definition response_json :: "response \<Rightarrow> world \<Rightarrow> nat \<times> world" where
  "response_json r w =
     new_promise (case json_read r of Inr j \<Rightarrow> Fulfilled (Data j) | Inl e \<Rightarrow> Rejected (Err e)) w"

definition response_text :: "response \<Rightarrow> world \<Rightarrow> nat \<times> world" where
  "response_text r w =
     new_promise (case text_read r of Inr t \<Rightarrow> Fulfilled (Data (JStr t)) | Inl e \<Rightarrow> Rejected (Err e)) w"

section \<open>Stores of \<open>svelte/store\<close>\<close>

text \<open>
  \<open>safe_not_equal(a, b)\<close> is \<open>a != a ? b == b : a !== b || (a && typeof a === 'object') ||
  typeof a === 'function'\<close>. The model has neither \<open>NaN\<close> nor function values. Strict
  inequality of two primitives is inequality of the values, and for an object \<open>a\<close> the
  second disjunct decides.
\<close>

definition is_object :: "jsvalue \<Rightarrow> bool" where
  "is_object a =
     (case a of
        Data (JArr xs) \<Rightarrow> True
      | Data (JObj kvs) \<Rightarrow> True
      | Data d \<Rightarrow> False
      | _ \<Rightarrow> True)"

definition safe_not_equal :: "jsvalue \<Rightarrow> jsvalue \<Rightarrow> bool" where
  "safe_not_equal a b = (a \<noteq> b \<or> is_object a)"

text \<open>\<open>readable(value, start)\<close>; the start function is given by the promise it listens to.\<close>

definition readable :: "jsvalue \<Rightarrow> nat \<Rightarrow> world \<Rightarrow> nat \<times> world" where
  "readable v p w =
     (length (stores w),
      w\<lparr>stores := stores w @
         [\<lparr>store_value = v, store_stop = False, store_subscribers = [],
           store_next = 0, store_start = p\<rparr>]\<rparr>)"

definition invalidations :: "(nat \<times> string \<times> string option) list \<Rightarrow> event list" where
  "invalidations subs =
     concat (map (\<lambda>(i, run, invalidate). case invalidate of None \<Rightarrow> [] | Some l \<Rightarrow> [Invalidated l]) subs)"

definition runs :: "jsvalue \<Rightarrow> (nat \<times> string \<times> string option) list \<Rightarrow> event list" where
  "runs v subs = map (\<lambda>(i, run, invalidate). Ran run v) subs"

text \<open>
  \<open>set(new_value)\<close>: nothing happens unless the value changes; then, with \<open>stop\<close> set,
  every subscriber is invalidated and after that every subscriber is run.
\<close>

definition store_set :: "nat \<Rightarrow> jsvalue \<Rightarrow> world \<Rightarrow> world" where
  "store_set sid v w =
     (if sid < length (stores w) then
        let s = stores w ! sid in
        if safe_not_equal (store_value s) v then
          let w1 = w\<lparr>stores := (stores w)[sid := s\<lparr>store_value := v\<rparr>]\<rparr> in
          if store_stop s then
            w1\<lparr>trace := trace w1 @ invalidations (store_subscribers s) @ runs v (store_subscribers s)\<rparr>
          else w1
        else w
      else w)"

text \<open>
  The start function that \<open>subscribe\<close> of the source passes to \<open>readable\<close>:
  \<open>(set) => { _promise.then((value) => { set(value); }); }\<close>.
\<close>

definition subscribe_start :: "nat \<Rightarrow> nat \<Rightarrow> world \<Rightarrow> world" where
  "subscribe_start p sid w = snd (promise_then p (StoreSet sid) NoHandler w)"

text \<open>
  \<open>store.subscribe(run, invalidate)\<close>: the subscriber is added, the first subscriber
  starts the store (the start function returns nothing, so \<open>stop\<close> becomes \<open>noop\<close>),
  \<open>run\<close> is called with the current value; the result identifies the subscription.
\<close>

definition store_subscribe :: "nat \<Rightarrow> string \<Rightarrow> string option \<Rightarrow> world \<Rightarrow> (nat \<times> nat) \<times> world" where
  "store_subscribe sid run invalidate w =
     (if sid < length (stores w) then
        let s = stores w ! sid;
            i = store_next s;
            s1 = s\<lparr>store_subscribers := store_subscribers s @ [(i, run, invalidate)], store_next := Suc i\<rparr>;
            w1 = w\<lparr>stores := (stores w)[sid := s1]\<rparr>;
            w2 = (if length (store_subscribers s1) = 1
                  then (let w' = subscribe_start (store_start s1) sid w1
                        in w'\<lparr>stores := (stores w')[sid := (stores w' ! sid)\<lparr>store_stop := True\<rparr>]\<rparr>)
                  else w1)
        in ((sid, i), w2\<lparr>trace := trace w2 @ [Ran run (store_value (stores w2 ! sid))]\<rparr>)
      else ((sid, 0), w))"

text \<open>The unsubscriber: the subscriber is removed; the last one to leave stops the store.\<close>

definition store_unsubscribe :: "nat \<times> nat \<Rightarrow> world \<Rightarrow> world" where
  "store_unsubscribe u w =
     (case u of (sid, i) \<Rightarrow>
        if sid < length (stores w) then
          let s = stores w ! sid;
              subs = filter (\<lambda>(j, run, invalidate). j \<noteq> i) (store_subscribers s);
              s1 = s\<lparr>store_subscribers := subs\<rparr>;
              s2 = (if subs = [] \<and> store_stop s then s1\<lparr>store_stop := False\<rparr> else s1)
          in w\<lparr>stores := (stores w)[sid := s2]\<rparr>
        else w)"

section \<open>Calling handlers and running jobs\<close>

text \<open>
  The async arrow function of \<open>fetchErrorHandled$\<close>. Calling an async function returns
  its promise \<open>a\<close>. A successful response is returned, which resolves \<open>a\<close>. Otherwise
  the body is read according to the content type and the function waits for the read;
  \<open>AfterBody\<close> then throws the \<open>HttpError\<close>, which rejects \<open>a\<close>, and
  \<open>AfterBodyFailed\<close> rejects \<open>a\<close> with the error of the read. An argument that is not a
  response has no \<open>headers\<close> to call \<open>get\<close> on.
\<close>

definition fetchErrorHandled_handler :: "jsvalue \<Rightarrow> world \<Rightarrow> completion \<times> world" where
  "fetchErrorHandled_handler arg w =
     (let (a, w1) = new_promise (Pending []) w in
      case arg of
        Resp r \<Rightarrow>
          if ok r then (Return (PromiseRef a), resolve_promise a (Resp r) w1)
          else
            let (b, w2) =
                 (case map_of (headers r) ''content-type'' of
                    Some ct \<Rightarrow>
                      if str_includes ct ''application/json'' then response_json r w1
                      else response_text r w1
                  | None \<Rightarrow> response_text r w1)
            in (Return (PromiseRef a),
                perform_then b (AfterBody (status r) (statusText r) a) (AfterBodyFailed a) None w2)
      | _ \<Rightarrow> (Return (PromiseRef a), reject_promise a (Err ''TypeError'') w1))"

text \<open>The arrow function of \<open>fetchJson$\<close>: \<open>(response) => response.json()\<close>.\<close>

definition fetchJson_handler :: "jsvalue \<Rightarrow> world \<Rightarrow> completion \<times> world" where
  "fetchJson_handler arg w =
     (case arg of
        Resp r \<Rightarrow> (let (b, w1) = response_json r w in (Return (PromiseRef b), w1))
      | _ \<Rightarrow> (Throw (Err ''TypeError''), w))"

text \<open>
  The closures of \<open>Promise.prototype.finally\<close>: the callback is called without argument;
  if it throws, the closure throws; otherwise the closure returns
  \<open>PromiseResolve(result).then(thunk)\<close>, the thunk returning the value or throwing the
  reason.
\<close>

definition finally_closure :: "string \<Rightarrow> callback \<Rightarrow> handler \<Rightarrow> world \<Rightarrow> completion \<times> world" where
  "finally_closure n f thunk w =
     (let w1 = w\<lparr>trace := trace w @ [Called n (Data JUndefined)]\<rparr> in
      case f (Data JUndefined) of
        Throw e \<Rightarrow> (Throw e, w1)
      | Return r \<Rightarrow>
          let (q, w2) = promise_resolve r w1;
              (d, w3) = promise_then q thunk NoHandler w2
          in (Return (PromiseRef d), w3))"

definition call_handler :: "handler \<Rightarrow> jsvalue \<Rightarrow> world \<Rightarrow> completion \<times> world" where
  "call_handler h arg w =
     (case h of
        NoHandler \<Rightarrow> (Throw (Err ''TypeError''), w)
      | User n f \<Rightarrow> (f arg, w\<lparr>trace := trace w @ [Called n arg]\<rparr>)
      | ErrorHandled \<Rightarrow> fetchErrorHandled_handler arg w
      | AfterBody st stt a \<Rightarrow> (Return (Data JUndefined), reject_promise a (new_HttpError st stt arg) w)
      | AfterBodyFailed a \<Rightarrow> (Return (Data JUndefined), reject_promise a arg w)
      | JsonUnwrap \<Rightarrow> fetchJson_handler arg w
      | StoreSet sid \<Rightarrow> (Return (Data JUndefined), store_set sid arg w)
      | ThenFinally n f \<Rightarrow> finally_closure n f (ValueThunk arg) w
      | CatchFinally n f \<Rightarrow> finally_closure n f (Thrower arg) w
      | ValueThunk v \<Rightarrow> (Return v, w)
      | Thrower e \<Rightarrow> (Throw e, w)
      | ResolveFn p \<Rightarrow> (Return (Data JUndefined), resolve_promise p arg w)
      | RejectFn p \<Rightarrow> (Return (Data JUndefined), reject_promise p arg w))"

text \<open>
  A reaction job: without handler the argument is passed on, as a value or as a throw;
  with a handler the handler is called. The completion settles the capability, if there
  is one. A thenable job calls \<open>q.then\<close> with the resolving functions of \<open>p\<close>.
\<close>

definition run_job :: "job \<Rightarrow> world \<Rightarrow> world" where
  "run_job j w =
     (case j of
        ReactionJob t h cap arg \<Rightarrow>
          (let (c, w1) =
                (case h of
                   NoHandler \<Rightarrow> ((case t of OnFulfill \<Rightarrow> Return arg | OnReject \<Rightarrow> Throw arg), w)
                 | _ \<Rightarrow> call_handler h arg w)
           in case cap of
                None \<Rightarrow> w1
              | Some d \<Rightarrow>
                  (case c of Return x \<Rightarrow> resolve_promise d x w1 | Throw e \<Rightarrow> reject_promise d e w1))
      | ThenableJob p q \<Rightarrow> snd (promise_then q (ResolveFn p) (RejectFn p) w))"

text \<open>
  The microtask checkpoint: jobs are run in order until the queue is empty. The result is
  \<open>None\<close> if that never happens.
\<close>

partial_function (option) drain :: "world \<Rightarrow> world option" where
  "drain w =
     (if queue w = [] then Some w
      else drain (run_job (hd (queue w)) (w\<lparr>queue := tl (queue w)\<rparr>)))"

section \<open>The library\<close>

text \<open>
  The names of the source end in \<open>$\<close>, written \<open>_S\<close> here. Every operation takes the
  world and returns it with its result.
\<close>

subsection \<open>\<open>promisable\<close>\<close>

record Promisable =
  initialValue :: jsvalue
  promise :: nat

definition promisable :: "jsvalue \<Rightarrow> nat \<Rightarrow> Promisable" where
  "promisable v p = \<lparr>initialValue = v, promise = p\<rparr>"

definition then_S :: "Promisable \<Rightarrow> handler \<Rightarrow> world \<Rightarrow> Promisable \<times> world" where
  "then_S f onfulfilled w =
     (let (d, w1) = promise_then (promise f) onfulfilled NoHandler w
      in (promisable (initialValue f) d, w1))"

definition catch_S :: "Promisable \<Rightarrow> handler \<Rightarrow> world \<Rightarrow> Promisable \<times> world" where
  "catch_S f onrejected w =
     (let (d, w1) = promise_catch (promise f) onrejected w
      in (promisable (initialValue f) d, w1))"

definition finally_S :: "Promisable \<Rightarrow> handler \<Rightarrow> world \<Rightarrow> Promisable \<times> world" where
  "finally_S f onfinally w =
     (let (d, w1) = promise_finally (promise f) onfinally w
      in (promisable (initialValue f) d, w1))"

definition startWith_S :: "Promisable \<Rightarrow> jsvalue \<Rightarrow> world \<Rightarrow> Promisable \<times> world" where
  "startWith_S f v w = (promisable v (promise f), w)"

definition subscribe :: "Promisable \<Rightarrow> string \<Rightarrow> string option \<Rightarrow> world \<Rightarrow> (nat \<times> nat) \<times> world" where
  "subscribe f run invalidate w =
     (let (sid, w1) = readable (initialValue f) (promise f) w
      in store_subscribe sid run invalidate w1)"

subsection \<open>Requests\<close>

definition fetch_S :: "string \<Rightarrow> obj option \<Rightarrow> world \<Rightarrow> Promisable \<times> world" where
  "fetch_S input init w =
     (let (p, w1) = fetch input init w in (promisable (Data JUndefined) p, w1))"

definition fetchErrorHandled_S :: "string \<Rightarrow> obj option \<Rightarrow> world \<Rightarrow> Promisable \<times> world" where
  "fetchErrorHandled_S input init w =
     (let (f, w1) = fetch_S input init w in then_S f ErrorHandled w1)"

definition fetchJson_S :: "string \<Rightarrow> obj option \<Rightarrow> world \<Rightarrow> Promisable \<times> world" where
  "fetchJson_S input init w =
     (let (f, w1) = fetchErrorHandled_S input init w in then_S f JsonUnwrap w1)"

text \<open>
  Default parameters: an omitted \<open>init\<close> is \<open>{}\<close>; an omitted or \<open>undefined\<close> body is
  \<open>null\<close>. \<open>with_method\<close> is the literal \<open>{ ...init, method: m }\<close> and
  \<open>with_method_body\<close> is \<open>{ ...init, method: m, body: JSON.stringify(body) }\<close>.
\<close>

definition init_default :: "obj option \<Rightarrow> obj" where
  "init_default init = (case init of None \<Rightarrow> [] | Some i \<Rightarrow> i)"

definition body_default :: "json \<Rightarrow> json" where
  "body_default body = (if body = JUndefined then JNull else body)"

definition JSON_stringify :: "json \<Rightarrow> json" where
  "JSON_stringify v = (case stringify v of None \<Rightarrow> JUndefined | Some s \<Rightarrow> JStr s)"

definition with_method :: "obj \<Rightarrow> string \<Rightarrow> obj" where
  "with_method init m = obj_set ''method'' (JStr m) (spread [] init)"

definition with_method_body :: "obj \<Rightarrow> string \<Rightarrow> json \<Rightarrow> obj" where
  "with_method_body init m body =
     obj_set ''body'' (JSON_stringify body) (obj_set ''method'' (JStr m) (spread [] init))"

definition get_S :: "string \<Rightarrow> obj option \<Rightarrow> world \<Rightarrow> Promisable \<times> world" where
  "get_S endpoint init w =
     fetchErrorHandled_S endpoint (Some (with_method (init_default init) ''GET'')) w"

definition getJson_S :: "string \<Rightarrow> obj option \<Rightarrow> world \<Rightarrow> Promisable \<times> world" where
  "getJson_S endpoint init w =
     fetchJson_S endpoint (Some (with_method (init_default init) ''GET'')) w"

definition post_S :: "string \<Rightarrow> json \<Rightarrow> obj option \<Rightarrow> world \<Rightarrow> Promisable \<times> world" where
  "post_S endpoint body init w =
     fetchErrorHandled_S endpoint
       (Some (with_method_body (init_default init) ''POST'' (body_default body))) w"

definition postJson_S :: "string \<Rightarrow> json \<Rightarrow> obj option \<Rightarrow> world \<Rightarrow> Promisable \<times> world" where
  "postJson_S endpoint body init w =
     fetchJson_S endpoint
       (Some (with_method_body (init_default init) ''POST'' (body_default body))) w"

definition put_S :: "string \<Rightarrow> json \<Rightarrow> obj option \<Rightarrow> world \<Rightarrow> Promisable \<times> world" where
  "put_S endpoint body init w =
     fetchErrorHandled_S endpoint
       (Some (with_method_body (init_default init) ''PUT'' (body_default body))) w"

definition putJson_S :: "string \<Rightarrow> json \<Rightarrow> obj option \<Rightarrow> world \<Rightarrow> Promisable \<times> world" where
  "putJson_S endpoint body init w =
     fetchJson_S endpoint
       (Some (with_method_body (init_default init) ''PUT'' (body_default body))) w"

definition patch_S :: "string \<Rightarrow> json \<Rightarrow> obj option \<Rightarrow> world \<Rightarrow> Promisable \<times> world" where
  "patch_S endpoint body init w =
     fetchErrorHandled_S endpoint
       (Some (with_method_body (init_default init) ''PATCH'' (body_default body))) w"

definition patchJson_S :: "string \<Rightarrow> json \<Rightarrow> obj option \<Rightarrow> world \<Rightarrow> Promisable \<times> world" where
  "patchJson_S endpoint body init w =
     fetchJson_S endpoint
       (Some (with_method_body (init_default init) ''PATCH'' (body_default body))) w"

definition delete_S :: "string \<Rightarrow> obj option \<Rightarrow> world \<Rightarrow> Promisable \<times> world" where
  "delete_S endpoint init w =
     fetchErrorHandled_S endpoint (Some (with_method (init_default init) ''DELETE'')) w"

definition deleteJson_S :: "string \<Rightarrow> obj option \<Rightarrow> world \<Rightarrow> Promisable \<times> world" where
  "deleteJson_S endpoint init w =
     fetchJson_S endpoint (Some (with_method (init_default init) ''DELETE'')) w"

subsection \<open>\<open>SvelteHttpClient\<close>\<close>

text \<open>
  The client keeps \<open>_baseUrl\<close> and \<open>_init\<close>. \<open>new URL(endpoint, base)\<close> is the
  platform's; it is a parameter \<open>new_URL\<close> of the methods, \<open>None\<close> when the constructor
  throws its \<open>TypeError\<close>, in which case the method throws before anything is requested.
\<close>

record SvelteHttpClient =
  c_baseUrl :: "string option"
  c_init :: obj

definition new_SvelteHttpClient :: "string option \<Rightarrow> obj option \<Rightarrow> SvelteHttpClient" where
  "new_SvelteHttpClient baseUrl init = \<lparr>c_baseUrl = baseUrl, c_init = init_default init\<rparr>"

type_synonym url_constructor = "string \<Rightarrow> string option \<Rightarrow> string option"

text \<open>The options of a call: \<open>{ ...this._init, ...init }\<close>.\<close>

definition merged :: "SvelteHttpClient \<Rightarrow> obj option \<Rightarrow> obj option" where
  "merged c init = Some (spread (spread [] (c_init c)) (init_default init))"

definition client_get_S ::
  "url_constructor \<Rightarrow> SvelteHttpClient \<Rightarrow> string \<Rightarrow> obj option \<Rightarrow> world \<Rightarrow> jsvalue + Promisable \<times> world" where
  "client_get_S new_URL c endpoint init w =
     (case new_URL endpoint (c_baseUrl c) of
        None \<Rightarrow> Inl (Err ''TypeError'')
      | Some u \<Rightarrow> Inr (get_S u (merged c init) w))"

definition client_getJson_S ::
  "url_constructor \<Rightarrow> SvelteHttpClient \<Rightarrow> string \<Rightarrow> obj option \<Rightarrow> world \<Rightarrow> jsvalue + Promisable \<times> world" where
  "client_getJson_S new_URL c endpoint init w =
     (case new_URL endpoint (c_baseUrl c) of
        None \<Rightarrow> Inl (Err ''TypeError'')
      | Some u \<Rightarrow> Inr (getJson_S u (merged c init) w))"

definition client_post_S ::
  "url_constructor \<Rightarrow> SvelteHttpClient \<Rightarrow> string \<Rightarrow> json \<Rightarrow> obj option \<Rightarrow> world \<Rightarrow> jsvalue + Promisable \<times> world" where
  "client_post_S new_URL c endpoint body init w =
     (case new_URL endpoint (c_baseUrl c) of
        None \<Rightarrow> Inl (Err ''TypeError'')
      | Some u \<Rightarrow> Inr (post_S u (body_default body) (merged c init) w))"

definition client_postJson_S ::
  "url_constructor \<Rightarrow> SvelteHttpClient \<Rightarrow> string \<Rightarrow> json \<Rightarrow> obj option \<Rightarrow> world \<Rightarrow> jsvalue + Promisable \<times> world" where
  "client_postJson_S new_URL c endpoint body init w =
     (case new_URL endpoint (c_baseUrl c) of
        None \<Rightarrow> Inl (Err ''TypeError'')
      | Some u \<Rightarrow> Inr (postJson_S u (body_default body) (merged c init) w))"

definition client_put_S ::
  "url_constructor \<Rightarrow> SvelteHttpClient \<Rightarrow> string \<Rightarrow> json \<Rightarrow> obj option \<Rightarrow> world \<Rightarrow> jsvalue + Promisable \<times> world" where
  "client_put_S new_URL c endpoint body init w =
     (case new_URL endpoint (c_baseUrl c) of
        None \<Rightarrow> Inl (Err ''TypeError'')
      | Some u \<Rightarrow> Inr (put_S u (body_default body) (merged c init) w))"

definition client_putJson_S ::
  "url_constructor \<Rightarrow> SvelteHttpClient \<Rightarrow> string \<Rightarrow> json \<Rightarrow> obj option \<Rightarrow> world \<Rightarrow> jsvalue + Promisable \<times> world" where
  "client_putJson_S new_URL c endpoint body init w =
     (case new_URL endpoint (c_baseUrl c) of
        None \<Rightarrow> Inl (Err ''TypeError'')
      | Some u \<Rightarrow> Inr (putJson_S u (body_default body) (merged c init) w))"

definition client_patch_S ::
  "url_constructor \<Rightarrow> SvelteHttpClient \<Rightarrow> string \<Rightarrow> json \<Rightarrow> obj option \<Rightarrow> world \<Rightarrow> jsvalue + Promisable \<times> world" where
  "client_patch_S new_URL c endpoint body init w =
     (case new_URL endpoint (c_baseUrl c) of
        None \<Rightarrow> Inl (Err ''TypeError'')
      | Some u \<Rightarrow> Inr (patch_S u (body_default body) (merged c init) w))"

definition client_patchJson_S ::
  "url_constructor \<Rightarrow> SvelteHttpClient \<Rightarrow> string \<Rightarrow> json \<Rightarrow> obj option \<Rightarrow> world \<Rightarrow> jsvalue + Promisable \<times> world" where
  "client_patchJson_S new_URL c endpoint body init w =
     (case new_URL endpoint (c_baseUrl c) of
        None \<Rightarrow> Inl (Err ''TypeError'')
      | Some u \<Rightarrow> Inr (patchJson_S u (body_default body) (merged c init) w))"

definition client_delete_S ::
  "url_constructor \<Rightarrow> SvelteHttpClient \<Rightarrow> string \<Rightarrow> obj option \<Rightarrow> world \<Rightarrow> jsvalue + Promisable \<times> world" where
  "client_delete_S new_URL c endpoint init w =
     (case new_URL endpoint (c_baseUrl c) of
        None \<Rightarrow> Inl (Err ''TypeError'')
      | Some u \<Rightarrow> Inr (delete_S u (merged c init) w))"

definition client_deleteJson_S ::
  "url_constructor \<Rightarrow> SvelteHttpClient \<Rightarrow> string \<Rightarrow> obj option \<Rightarrow> world \<Rightarrow> jsvalue + Promisable \<times> world" where
  "client_deleteJson_S new_URL c endpoint init w =
     (case new_URL endpoint (c_baseUrl c) of
        None \<Rightarrow> Inl (Err ''TypeError'')
      | Some u \<Rightarrow> Inr (deleteJson_S u (merged c init) w))"

subsection \<open>Reading the world\<close>

text \<open>
  The requests handed to \<open>fetch\<close> between two worlds, read by an option of the request
  and by a header of its \<open>headers\<close> option: one entry for each request, in order. A
  client method that throws leaves the world as it was.
\<close>

fun requests :: "event list \<Rightarrow> (string \<times> obj option) list" where
  "requests [] = []"
| "requests (Requested u i # es) = (u, i) # requests es"
| "requests (e # es) = requests es"

definition header_of :: "obj \<Rightarrow> string \<Rightarrow> json option" where
  "header_of init k =
     (case obj_get init ''headers'' of Some (JObj hs) \<Rightarrow> obj_get hs k | _ \<Rightarrow> None)"

definition issued :: "world \<Rightarrow> world \<Rightarrow> (string \<times> obj option) list" where
  "issued w w' = requests (drop (length (trace w)) (trace w'))"

definition issued_urls :: "world \<Rightarrow> world \<Rightarrow> string list" where
  "issued_urls w w' = map fst (issued w w')"

definition issued_option :: "world \<Rightarrow> world \<Rightarrow> string \<Rightarrow> json option list" where
  "issued_option w w' k = map (\<lambda>(u, i). obj_get (init_default i) k) (issued w w')"

definition issued_header :: "world \<Rightarrow> world \<Rightarrow> string \<Rightarrow> json option list" where
  "issued_header w w' k = map (\<lambda>(u, i). header_of (init_default i) k) (issued w w')"

text \<open>
  What a shallow merge of the default options and the options of a call has under a key:
  the value of the call if the call has the key, the default otherwise.
\<close>

definition merged_option :: "SvelteHttpClient \<Rightarrow> obj option \<Rightarrow> string \<Rightarrow> json option" where
  "merged_option c init k =
     (case obj_get (init_default init) k of Some v \<Rightarrow> Some v | None \<Rightarrow> obj_get (c_init c) k)"

definition world_after :: "world \<Rightarrow> jsvalue + Promisable \<times> world \<Rightarrow> world" where
  "world_after w r = (case r of Inl e \<Rightarrow> w | Inr (f, w') \<Rightarrow> w')"

subsection \<open>Settling an operation\<close>

text \<open>
  The underlying operation of a future completes from outside: the platform fulfils or
  rejects its promise. After that the microtasks run. \<open>settle_after\<close> performs a library
  operation while the promise is pending and then lets the underlying operation
  complete; \<open>settle_before\<close> lets it complete first. Both run the microtask queue to its
  end and return the result of the library operation with the final world, \<open>None\<close> if
  the queue never empties.
\<close>

datatype outcome = Succeeds jsvalue | Fails jsvalue

definition settle :: "nat \<Rightarrow> outcome \<Rightarrow> world \<Rightarrow> world" where
  "settle p out w =
     (case out of Succeeds v \<Rightarrow> fulfill_promise p v w | Fails e \<Rightarrow> reject_promise p e w)"

definition settle_after :: "(world \<Rightarrow> 'a \<times> world) \<Rightarrow> nat \<Rightarrow> outcome \<Rightarrow> world \<Rightarrow> 'a \<times> world option" where
  "settle_after oper p out w = (let (x, w1) = oper w in (x, drain (settle p out w1)))"

definition settle_before :: "(world \<Rightarrow> 'a \<times> world) \<Rightarrow> nat \<Rightarrow> outcome \<Rightarrow> world \<Rightarrow> 'a \<times> world option" where
  "settle_before oper p out w = (let (x, w1) = oper (settle p out w) in (x, drain w1))"

definition state_after :: "world option \<Rightarrow> nat \<Rightarrow> pstate option" where
  "state_after r p = (case r of None \<Rightarrow> None | Some w \<Rightarrow> lookup_promise w p)"

definition trace_after :: "world option \<Rightarrow> event list option" where
  "trace_after r = (case r of None \<Rightarrow> None | Some w \<Rightarrow> Some (trace w))"

text \<open>Something that happens later, after which the microtasks run again.\<close>

definition later :: "world option \<Rightarrow> (world \<Rightarrow> world) \<Rightarrow> world option" where
  "later r step = (case r of None \<Rightarrow> None | Some w \<Rightarrow> drain (step w))"

text \<open>
  A future whose operation is in flight: no job is waiting, and the promise of the future
  is pending with nothing listening to it yet.
\<close>

definition in_flight :: "world \<Rightarrow> Promisable \<Rightarrow> bool" where
  "in_flight w f = (queue w = [] \<and> lookup_promise w (promise f) = Some (Pending []))"

text \<open>A value that is not a promise, and the handler \<open>x => b(a(x))\<close>.\<close>

definition plain :: "jsvalue \<Rightarrow> bool" where
  "plain v = (case v of PromiseRef q \<Rightarrow> False | _ \<Rightarrow> True)"

definition composed :: "callback \<Rightarrow> callback \<Rightarrow> callback" where
  "composed a b x = (case a x of Return y \<Rightarrow> b y | Throw e \<Rightarrow> Throw e)"

text \<open>
  What a callback may return without harm: a value that is not a promise, or a promise of
  the world that is fulfilled (\<open>fulfilled_or_plain\<close>); a value that is not a promise, or
  a promise of the world that is not fulfilled with a promise (\<open>known\<close>).
\<close>

definition fulfilled_or_plain :: "world \<Rightarrow> jsvalue \<Rightarrow> bool" where
  "fulfilled_or_plain w r =
     (case r of
        PromiseRef q \<Rightarrow> (case lookup_promise w q of Some (Fulfilled x) \<Rightarrow> True | _ \<Rightarrow> False)
      | _ \<Rightarrow> True)"

definition known :: "world \<Rightarrow> jsvalue \<Rightarrow> bool" where
  "known w r =
     (case r of
        PromiseRef q \<Rightarrow>
          (case lookup_promise w q of None \<Rightarrow> False | Some (Fulfilled x) \<Rightarrow> plain x | Some st \<Rightarrow> True)
      | _ \<Rightarrow> True)"

text \<open>\<open>f.then$(a).then$(b)\<close>.\<close>

definition then_then :: "Promisable \<Rightarrow> handler \<Rightarrow> handler \<Rightarrow> world \<Rightarrow> Promisable \<times> world" where
  "then_then f a b w = (let (f1, w1) = then_S f a w in then_S f1 b w1)"

text \<open>
  For the examples: the world before anything has happened, and a URL constructor that
  puts the endpoint behind the base.
\<close>

definition empty_world :: world where
  "empty_world = \<lparr>heap = [], queue = [], trace = [], stores = []\<rparr>"

definition join_URL :: url_constructor where
  "join_URL endpoint base = (case base of None \<Rightarrow> None | Some b \<Rightarrow> Some (b @ endpoint))"

text \<open>The future and the world right after \<open>fetch$('u')\<close> in the empty world.\<close>

definition example_future :: Promisable where
  "example_future = fst (fetch_S ''u'' None empty_world)"

definition example_world :: world where
  "example_world = snd (fetch_S ''u'' None empty_world)"

text \<open>
  Responses and callbacks for the examples: a successful response; the response of the
  claim's first scenario (status 404, JSON content type, body \<open>{"error":"missing"}\<close>) and
  of its second (status 500, plain text, body \<open>boom\<close>); a 404 response that declares JSON
  and carries something else; a callback that returns \<open>undefined\<close>, one that throws, one
  that adds one to a number and throws a \<open>TypeError\<close> on anything else.
\<close>

definition ok_response :: response where
  "ok_response =
     \<lparr>ok = True, status = 200, statusText = ''OK'',
      headers = [(''content-type'', ''application/json'')],
      json_read = Inr (JArr []), text_read = Inr ''[]''\<rparr>"

definition missing_response :: response where
  \<open>missing_response =
     \<lparr>ok = False, status = 404, statusText = ''Not Found'',
      headers = [(''content-type'', ''application/json'')],
      json_read = Inr (JObj [(''error'', JStr ''missing'')]),
      text_read = Inr ''{"error":"missing"}''\<rparr>\<close>

definition boom_response :: response where
  "boom_response =
     \<lparr>ok = False, status = 500, statusText = ''Internal Server Error'',
      headers = [(''content-type'', ''text/plain'')],
      json_read = Inl ''SyntaxError'', text_read = Inr ''boom''\<rparr>"

definition broken_response :: response where
  "broken_response =
     \<lparr>ok = False, status = 404, statusText = ''Not Found'',
      headers = [(''content-type'', ''application/json'')],
      json_read = Inl ''SyntaxError'', text_read = Inr ''<html>Not Found</html>''\<rparr>"

definition returns_undefined :: callback where
  "returns_undefined x = Return (Data JUndefined)"

definition throws_oops :: callback where
  "throws_oops x = Throw (Err ''oops'')"

definition add_one :: callback where
  "add_one x = (case x of Data (JNum n) \<Rightarrow> Return (Data (JNum (n + 1))) | _ \<Rightarrow> Throw (Err ''TypeError''))"

text \<open>
  \<open>done_future\<close> is \<open>fetch$('u').then$(() => {})\<close>, as in the demo page of the
  repository, and \<open>done_world\<close> the world after it.
\<close>

definition done_future :: Promisable where
  "done_future = fst (then_S example_future (User ''done'' returns_undefined) example_world)"

definition done_world :: world where
  "done_world = snd (then_S example_future (User ''done'' returns_undefined) example_world)"

text \<open>
  \<open>one_world\<close> is the world after \<open>fetch$('u')\<close> and \<open>Promise.resolve(1)\<close>, whose
  promise is number 1 of the heap; \<open>returns_promise_one\<close> is a callback that returns
  that promise.
\<close>

definition one_world :: world where
  "one_world = snd (promise_resolve (Data (JNum 1)) example_world)"

definition returns_promise_one :: callback where
  "returns_promise_one x = Return (PromiseRef 1)"

section \<open>Objects and request options\<close>

lemma map_of_obj_set:
  "map_of (obj_set k v ob) k' = (if k' = k then Some v else map_of ob k')"
  by (induction ob) auto

lemma obj_get_obj_set:
  "obj_get (obj_set k v ob) k' = (if k' = k then Some v else obj_get ob k')"
  by (simp add: obj_get_def map_of_obj_set)

text \<open>On objects with distinct keys, a spread is a right-biased union, key by key.\<close>

lemma map_of_spread:
  "distinct (map fst src) \<Longrightarrow>
   map_of (spread target src) k = (case map_of src k of Some v \<Rightarrow> Some v | None \<Rightarrow> map_of target k)"
proof (induction src arbitrary: target)
  case Nil
  then show ?case by (simp add: spread_def)
next
  case (Cons kv src)
  obtain k0 v0 where kv: "kv = (k0, v0)" by (cases kv)
  from Cons.prems kv have d: "distinct (map fst src)" and fresh: "map_of src k0 = None"
    by (auto simp: map_of_eq_None_iff)
  have "spread target (kv # src) = spread (obj_set k0 v0 target) src"
    by (simp add: spread_def kv)
  then show ?case
    using Cons.IH [OF d, of "obj_set k0 v0 target"] fresh
    by (auto simp: kv map_of_obj_set split: option.splits)
qed

lemma obj_get_spread:
  "distinct (map fst src) \<Longrightarrow>
   obj_get (spread target src) k = (case obj_get src k of Some v \<Rightarrow> Some v | None \<Rightarrow> obj_get target k)"
  by (simp add: obj_get_def map_of_spread split: option.splits)

lemma obj_get_spread_Nil:
  "distinct (map fst src) \<Longrightarrow> obj_get (spread [] src) k = obj_get src k"
  by (simp add: obj_get_def map_of_spread split: option.splits)

lemma obj_get_with_method:
  "obj_get (with_method i m) k =
     (if k = ''method'' then Some (JStr m) else obj_get (spread [] i) k)"
  by (simp add: with_method_def obj_get_obj_set)

lemma obj_get_with_method_body:
  "obj_get (with_method_body i m b) k =
     (if k = ''body'' then Some (JSON_stringify b)
      else if k = ''method'' then Some (JStr m) else obj_get (spread [] i) k)"
  by (simp add: with_method_body_def obj_get_obj_set)

lemma stringify_defined: "b \<noteq> JUndefined \<Longrightarrow> \<exists>s. stringify b = Some s"
  by (cases b) auto

lemma JSON_stringify_body_default:
  "\<exists>s. stringify (body_default b) = Some s \<and> JSON_stringify (body_default b) = JStr s"
proof -
  have "body_default b \<noteq> JUndefined" by (simp add: body_default_def)
  from stringify_defined [OF this] show ?thesis by (auto simp: JSON_stringify_def)
qed

section \<open>What the operations add to the trace\<close>

lemma trace_perform_then [simp]: "trace (perform_then p onf onr cap w) = trace w"
  by (simp add: perform_then_def split: option.splits pstate.splits)

lemma trace_promise_then [simp]: "trace (snd (promise_then p onf onr w)) = trace w"
  by (simp add: promise_then_def new_promise_def)

lemma trace_then_S [simp]: "trace (snd (then_S f h w)) = trace w"
  by (simp add: then_S_def split_def Let_def)

lemma trace_fetch_S [simp]: "trace (snd (fetch_S u i w)) = trace w @ [Requested u i]"
  by (simp add: fetch_S_def fetch_def new_promise_def Let_def)

lemma trace_fetchErrorHandled_S [simp]:
  "trace (snd (fetchErrorHandled_S u i w)) = trace w @ [Requested u i]"
  by (simp add: fetchErrorHandled_S_def split_def Let_def)

lemma trace_fetchJson_S [simp]:
  "trace (snd (fetchJson_S u i w)) = trace w @ [Requested u i]"
  by (simp add: fetchJson_S_def split_def Let_def)

lemma issued_fetchErrorHandled_S [simp]:
  "issued w (snd (fetchErrorHandled_S u i w)) = [(u, i)]"
  by (simp add: issued_def)

lemma issued_fetchJson_S [simp]: "issued w (snd (fetchJson_S u i w)) = [(u, i)]"
  by (simp add: issued_def)

lemmas verb_defs =
  get_S_def getJson_S_def post_S_def postJson_S_def put_S_def putJson_S_def
  patch_S_def patchJson_S_def delete_S_def deleteJson_S_def

section \<open>The verb functions\<close>

text \<open>
  Claim C9. Whatever options the caller passes, each verb function hands exactly one
  request to \<open>fetch\<close>, to the endpoint it was given; the \<open>method\<close> option of that
  request is the verb's own, and for POST, PUT and PATCH its \<open>body\<close> option is the string
  that \<open>JSON.stringify\<close> makes of the body argument. A \<open>method\<close> or \<open>body\<close> among the
  caller's options is overridden.
\<close>

theorem verbs_method_and_body_win:
  "issued_urls w (snd (get_S e i w)) = [e] \<and>
   issued_option w (snd (get_S e i w)) ''method'' = [Some (JStr ''GET'')] \<and>
   issued_urls w (snd (getJson_S e i w)) = [e] \<and>
   issued_option w (snd (getJson_S e i w)) ''method'' = [Some (JStr ''GET'')] \<and>
   issued_urls w (snd (delete_S e i w)) = [e] \<and>
   issued_option w (snd (delete_S e i w)) ''method'' = [Some (JStr ''DELETE'')] \<and>
   issued_urls w (snd (deleteJson_S e i w)) = [e] \<and>
   issued_option w (snd (deleteJson_S e i w)) ''method'' = [Some (JStr ''DELETE'')] \<and>
   issued_urls w (snd (post_S e b i w)) = [e] \<and>
   issued_option w (snd (post_S e b i w)) ''method'' = [Some (JStr ''POST'')] \<and>
   issued_option w (snd (post_S e b i w)) ''body'' = [Some (JSON_stringify (body_default b))] \<and>
   issued_urls w (snd (postJson_S e b i w)) = [e] \<and>
   issued_option w (snd (postJson_S e b i w)) ''method'' = [Some (JStr ''POST'')] \<and>
   issued_option w (snd (postJson_S e b i w)) ''body'' = [Some (JSON_stringify (body_default b))] \<and>
   issued_urls w (snd (put_S e b i w)) = [e] \<and>
   issued_option w (snd (put_S e b i w)) ''method'' = [Some (JStr ''PUT'')] \<and>
   issued_option w (snd (put_S e b i w)) ''body'' = [Some (JSON_stringify (body_default b))] \<and>
   issued_urls w (snd (putJson_S e b i w)) = [e] \<and>
   issued_option w (snd (putJson_S e b i w)) ''method'' = [Some (JStr ''PUT'')] \<and>
   issued_option w (snd (putJson_S e b i w)) ''body'' = [Some (JSON_stringify (body_default b))] \<and>
   issued_urls w (snd (patch_S e b i w)) = [e] \<and>
   issued_option w (snd (patch_S e b i w)) ''method'' = [Some (JStr ''PATCH'')] \<and>
   issued_option w (snd (patch_S e b i w)) ''body'' = [Some (JSON_stringify (body_default b))] \<and>
   issued_urls w (snd (patchJson_S e b i w)) = [e] \<and>
   issued_option w (snd (patchJson_S e b i w)) ''method'' = [Some (JStr ''PATCH'')] \<and>
   issued_option w (snd (patchJson_S e b i w)) ''body'' = [Some (JSON_stringify (body_default b))] \<and>
   (\<exists>s. stringify (body_default b) = Some s \<and> JSON_stringify (body_default b) = JStr s)"
  using JSON_stringify_body_default [of b]
  by (simp add: verb_defs issued_urls_def issued_option_def init_default_def
      obj_get_with_method obj_get_with_method_body)

text \<open>
  An instance: the caller asks for \<open>method: 'DELETE'\<close> and \<open>body: 'x'\<close> in the options of
  a \<open>post$\<close>; the request is a POST with the serialised body argument.
\<close>

theorem verbs_method_and_body_win_witness:
  \<open>issued_option empty_world
     (snd (post_S ''u'' (JObj [(''a'', JNum 1)])
        (Some [(''method'', JStr ''DELETE''), (''body'', JStr ''x'')]) empty_world)) ''method''
     = [Some (JStr ''POST'')] \<and>
   issued_option empty_world
     (snd (post_S ''u'' (JObj [(''a'', JNum 1)])
        (Some [(''method'', JStr ''DELETE''), (''body'', JStr ''x'')]) empty_world)) ''body''
     = [Some (JStr ''{"a":1}'')]\<close>
  using verbs_method_and_body_win [of empty_world "''u''"
      "Some [(''method'', JStr ''DELETE''), (''body'', JStr ''x'')]" "JObj [(''a'', JNum 1)]"]
  by (simp add: JSON_stringify_def body_default_def quote_def quote_char_def show_int_def
      show_nat.simps digit_char_def)

text \<open>
  Claim C10. With the body argument omitted, the request of \<open>post$\<close>, \<open>postJson$\<close>,
  \<open>put$\<close>, \<open>putJson$\<close>, \<open>patch$\<close> and \<open>patchJson$\<close> has the four characters
  \<open>null\<close> as its body: the default \<open>null\<close> goes through \<open>JSON.stringify\<close>.
\<close>

theorem omitted_body_is_null_string:
  "issued_option w (snd (post_S e JUndefined i w)) ''body'' = [Some (JStr ''null'')] \<and>
   issued_option w (snd (postJson_S e JUndefined i w)) ''body'' = [Some (JStr ''null'')] \<and>
   issued_option w (snd (put_S e JUndefined i w)) ''body'' = [Some (JStr ''null'')] \<and>
   issued_option w (snd (putJson_S e JUndefined i w)) ''body'' = [Some (JStr ''null'')] \<and>
   issued_option w (snd (patch_S e JUndefined i w)) ''body'' = [Some (JStr ''null'')] \<and>
   issued_option w (snd (patchJson_S e JUndefined i w)) ''body'' = [Some (JStr ''null'')]"
  by (simp add: verb_defs issued_option_def init_default_def obj_get_with_method_body
      JSON_stringify_def body_default_def)

section \<open>The client's options\<close>

lemma obj_get_Nil [simp]: "obj_get [] k = None"
  by (simp add: obj_get_def)

text \<open>\<open>{...this._init, ...init}\<close>, key by key.\<close>

lemma obj_get_merged:
  assumes "distinct (map fst (c_init c))" and "distinct (map fst (init_default i))"
  shows "obj_get (spread (spread [] (c_init c)) (init_default i)) k =
     (case obj_get (init_default i) k of Some v \<Rightarrow> Some v | None \<Rightarrow> obj_get (c_init c) k)"
  using assms by (simp add: obj_get_spread obj_get_spread_Nil split: option.splits)

lemma keys_obj_set: "set (map fst (obj_set k v ob)) = insert k (set (map fst ob))"
proof (induction ob)
  case Nil
  show ?case by simp
next
  case (Cons kv ob)
  obtain k0 v0 where kv: "kv = (k0, v0)" by (cases kv)
  show ?case
  proof (cases "k0 = k")
    case True
    then show ?thesis by (simp add: kv)
  next
    case False
    have "set (map fst (obj_set k v (kv # ob))) = insert k0 (set (map fst (obj_set k v ob)))"
      using False by (simp add: kv)
    also have "\<dots> = insert k0 (insert k (set (map fst ob)))"
      by (simp only: Cons.IH)
    finally show ?thesis by (simp add: kv insert_commute)
  qed
qed

lemma distinct_obj_set: "distinct (map fst ob) \<Longrightarrow> distinct (map fst (obj_set k v ob))"
proof (induction ob)
  case Nil
  then show ?case by simp
next
  case (Cons kv ob)
  obtain k0 v0 where kv: "kv = (k0, v0)" by (cases kv)
  from Cons.prems kv have fresh: "k0 \<notin> set (map fst ob)" and d: "distinct (map fst ob)"
    by auto
  show ?case
  proof (cases "k0 = k")
    case True
    with Cons.prems kv show ?thesis by simp
  next
    case False
    with fresh have "k0 \<notin> set (map fst (obj_set k v ob))"
      by (simp only: keys_obj_set) simp
    with False Cons.IH [OF d] show ?thesis by (simp add: kv)
  qed
qed

lemma distinct_spread:
  "distinct (map fst target) \<Longrightarrow> distinct (map fst (spread target src))"
proof (induction src arbitrary: target)
  case Nil
  then show ?case by (simp add: spread_def)
next
  case (Cons kv src)
  have "spread target (kv # src) = spread (obj_set (fst kv) (snd kv) target) src"
    by (simp add: spread_def split_def)
  with Cons show ?case by (simp add: distinct_obj_set)
qed

lemma client_options:
  assumes "distinct (map fst (c_init c))" and "distinct (map fst (init_default i))"
  shows "obj_get (with_method (init_default (merged c i)) m) k =
           (if k = ''method'' then Some (JStr m) else merged_option c i k)"
    and "obj_get (with_method_body (init_default (merged c i)) m b) k =
           (if k = ''body'' then Some (JSON_stringify b)
            else if k = ''method'' then Some (JStr m) else merged_option c i k)"
proof -
  let ?m = "spread (spread [] (c_init c)) (init_default i)"
  have m: "\<And>k. obj_get ?m k = merged_option c i k"
    using assms by (simp add: obj_get_merged merged_option_def)
  have "distinct (map fst ?m)"
    by (simp add: distinct_spread)
  then have s: "\<And>k. obj_get (spread [] ?m) k = obj_get ?m k"
    by (rule obj_get_spread_Nil)
  have i: "init_default (merged c i) = ?m"
    by (simp add: merged_def init_default_def)
  show "obj_get (with_method (init_default (merged c i)) m) k =
           (if k = ''method'' then Some (JStr m) else merged_option c i k)"
    by (simp only: i obj_get_with_method s m)
  show "obj_get (with_method_body (init_default (merged c i)) m b) k =
           (if k = ''body'' then Some (JSON_stringify b)
            else if k = ''method'' then Some (JStr m) else merged_option c i k)"
    by (simp only: i obj_get_with_method_body s m)
qed

lemmas client_defs =
  client_get_S_def client_getJson_S_def client_post_S_def client_postJson_S_def
  client_put_S_def client_putJson_S_def client_patch_S_def client_patchJson_S_def
  client_delete_S_def client_deleteJson_S_def

text \<open>
  Claim C1, as the code has it. Every verb method of the client makes one request, to the
  endpoint resolved against the base address. Its options are the shallow merge of the
  default options and the options of the call, key by key, the call's value winning, on
  which the verb function then sets the method (and the body). The merge is shallow:
  \<open>headers\<close> is one key, so the \<open>headers\<close> object of the call replaces the default
  \<open>headers\<close> object as a whole, and a default header is only sent when the call passes
  no \<open>headers\<close> at all.
\<close>

theorem client_merges_shallowly:
  assumes "new_URL e (c_baseUrl c) = Some u"
    and "distinct (map fst (c_init c))"
    and "distinct (map fst (init_default i))"
  shows "issued_urls w (world_after w (client_get_S new_URL c e i w)) = [u] \<and>
    issued_option w (world_after w (client_get_S new_URL c e i w)) k =
      [if k = ''method'' then Some (JStr ''GET'') else merged_option c i k] \<and>
    issued_header w (world_after w (client_get_S new_URL c e i w)) h =
      [case obj_get (init_default i) ''headers'' of
         Some hs \<Rightarrow> header_of (init_default i) h
       | None \<Rightarrow> header_of (c_init c) h] \<and>
    issued_option w (world_after w (client_getJson_S new_URL c e i w)) k =
      [if k = ''method'' then Some (JStr ''GET'') else merged_option c i k] \<and>
    issued_option w (world_after w (client_delete_S new_URL c e i w)) k =
      [if k = ''method'' then Some (JStr ''DELETE'') else merged_option c i k] \<and>
    issued_option w (world_after w (client_deleteJson_S new_URL c e i w)) k =
      [if k = ''method'' then Some (JStr ''DELETE'') else merged_option c i k] \<and>
    issued_option w (world_after w (client_post_S new_URL c e b i w)) k =
      [if k = ''body'' then Some (JSON_stringify (body_default b))
       else if k = ''method'' then Some (JStr ''POST'') else merged_option c i k] \<and>
    issued_option w (world_after w (client_postJson_S new_URL c e b i w)) k =
      [if k = ''body'' then Some (JSON_stringify (body_default b))
       else if k = ''method'' then Some (JStr ''POST'') else merged_option c i k] \<and>
    issued_option w (world_after w (client_put_S new_URL c e b i w)) k =
      [if k = ''body'' then Some (JSON_stringify (body_default b))
       else if k = ''method'' then Some (JStr ''PUT'') else merged_option c i k] \<and>
    issued_option w (world_after w (client_putJson_S new_URL c e b i w)) k =
      [if k = ''body'' then Some (JSON_stringify (body_default b))
       else if k = ''method'' then Some (JStr ''PUT'') else merged_option c i k] \<and>
    issued_option w (world_after w (client_patch_S new_URL c e b i w)) k =
      [if k = ''body'' then Some (JSON_stringify (body_default b))
       else if k = ''method'' then Some (JStr ''PATCH'') else merged_option c i k] \<and>
    issued_option w (world_after w (client_patchJson_S new_URL c e b i w)) k =
      [if k = ''body'' then Some (JSON_stringify (body_default b))
       else if k = ''method'' then Some (JStr ''PATCH'') else merged_option c i k]"
proof -
  note opts = client_options [OF assms(2,3)]
  have bb: "body_default (body_default b) = body_default b"
    by (simp add: body_default_def)
  have hdr: "header_of (with_method (init_default (merged c i)) ''GET'') h =
      (case obj_get (init_default i) ''headers'' of
         Some hs \<Rightarrow> header_of (init_default i) h
       | None \<Rightarrow> header_of (c_init c) h)"
    by (simp add: header_of_def opts merged_option_def split: option.splits)
  have some: "\<And>x. init_default (Some x) = x"
    by (simp add: init_default_def)
  show ?thesis
    using assms(1)
    by (simp add: client_defs verb_defs world_after_def split_def issued_urls_def
        issued_option_def issued_header_def some opts hdr bb)
qed

text \<open>
  The second scenario of the claim: the default is \<open>{headers: {x: "1"}}\<close>, the call passes
  \<open>{headers: {x: "2"}}\<close>, and the request carries \<open>x: "2"\<close>.
\<close>

theorem client_merges_shallowly_witness:
  "join_URL ''posts'' (c_baseUrl (new_SvelteHttpClient (Some ''https://api.example.com/'')
       (Some [(''headers'', JObj [(''x'', JStr ''1'')])]))) = Some ''https://api.example.com/posts'' \<and>
   issued_header empty_world
     (world_after empty_world
        (client_get_S join_URL
           (new_SvelteHttpClient (Some ''https://api.example.com/'')
              (Some [(''headers'', JObj [(''x'', JStr ''1'')])]))
           ''posts'' (Some [(''headers'', JObj [(''x'', JStr ''2'')])]) empty_world)) ''x''
     = [Some (JStr ''2'')]"
  using client_merges_shallowly [where new_URL = join_URL and e = "''posts''"
      and c = "new_SvelteHttpClient (Some ''https://api.example.com/'')
         (Some [(''headers'', JObj [(''x'', JStr ''1'')])])"
      and u = "''https://api.example.com/posts''"
      and i = "Some [(''headers'', JObj [(''x'', JStr ''2'')])]"
      and w = empty_world and k = "''method''" and h = "''x''" and b = JNull]
  by (simp add: join_URL_def new_SvelteHttpClient_def init_default_def obj_get_def header_of_def)

text \<open>
  The first scenario of the claim fails: the default is \<open>{headers: {x: "1"}}\<close>, the call
  passes \<open>{headers: {y: "2"}}\<close>, and the request carries \<open>y: "2"\<close> without any header
  \<open>x\<close>.
\<close>

theorem client_get_drops_default_header:
  "issued_header empty_world
     (world_after empty_world
        (client_get_S join_URL
           (new_SvelteHttpClient (Some ''https://api.example.com/'')
              (Some [(''headers'', JObj [(''x'', JStr ''1'')])]))
           ''posts'' (Some [(''headers'', JObj [(''y'', JStr ''2'')])]) empty_world)) ''x''
     = [None] \<and>
   issued_header empty_world
     (world_after empty_world
        (client_get_S join_URL
           (new_SvelteHttpClient (Some ''https://api.example.com/'')
              (Some [(''headers'', JObj [(''x'', JStr ''1'')])]))
           ''posts'' (Some [(''headers'', JObj [(''y'', JStr ''2'')])]) empty_world)) ''y''
     = [Some (JStr ''2'')]"
  by (simp add: client_get_S_def join_URL_def new_SvelteHttpClient_def merged_def
      init_default_def get_S_def world_after_def split_def issued_header_def header_of_def
      obj_get_def with_method_def spread_def)

section \<open>Running scenarios\<close>

text \<open>
  The theorems below run the model on a world that is arbitrary except for what the
  scenario needs, by unfolding the definitions; the microtask queue is drained step by
  step.
\<close>

lemmas promise_defs =
  lookup_promise_def new_promise_def fulfill_job_def reject_job_def fulfill_promise_def
  reject_promise_def resolve_promise_def perform_then_def promise_then_def promise_catch_def
  promise_finally_def promise_resolve_def run_job_def call_handler_def

lemmas scenario_defs =
  settle_def settle_after_def settle_before_def state_after_def trace_after_def later_def

lemmas promisable_defs =
  then_S_def catch_S_def finally_S_def startWith_S_def promisable_def

lemma drain_done: "queue w = [] \<Longrightarrow> drain w = Some w"
  by (simp add: drain.simps)

lemma drain_step:
  "queue w \<noteq> [] \<Longrightarrow> drain w = drain (run_job (hd (queue w)) (w\<lparr>queue := tl (queue w)\<rparr>))"
  by (subst drain.simps) simp

lemmas drain_simps = drain_done drain_step

lemma lookup_promise_Some_iff:
  "lookup_promise w p = Some st \<longleftrightarrow> p < length (heap w) \<and> heap w ! p = st"
  by (simp add: lookup_promise_def)

lemma in_flight_iff:
  "in_flight w f \<longleftrightarrow>
     queue w = [] \<and> promise f < length (heap w) \<and> heap w ! promise f = Pending []"
  by (simp add: in_flight_def lookup_promise_Some_iff)

section \<open>\<open>then$\<close>\<close>

lemma then_S_rejected:
  assumes "in_flight w f"
  shows "(case settle_after (then_S f (User n g)) (promise f) (Fails e) w of (f', w2) \<Rightarrow>
            state_after w2 (promise f') = Some (Rejected e) \<and> trace_after w2 = Some (trace w)) \<and>
         (case settle_before (then_S f (User n g)) (promise f) (Fails e) w of (f', w2) \<Rightarrow>
            state_after w2 (promise f') = Some (Rejected e) \<and> trace_after w2 = Some (trace w))"
  using assms
  by (simp add: in_flight_iff lookup_promise_Some_iff scenario_defs promisable_defs promise_defs
      Let_def nth_append drain_simps)


lemma then_S_throws:
  assumes "in_flight w f" and "g v = Throw e"
  shows "(case settle_after (then_S f (User n g)) (promise f) (Succeeds v) w of (f', w2) \<Rightarrow>
            state_after w2 (promise f') = Some (Rejected e) \<and>
            trace_after w2 = Some (trace w @ [Called n v])) \<and>
         (case settle_before (then_S f (User n g)) (promise f) (Succeeds v) w of (f', w2) \<Rightarrow>
            state_after w2 (promise f') = Some (Rejected e) \<and>
            trace_after w2 = Some (trace w @ [Called n v]))"
  using assms
  by (simp add: in_flight_iff lookup_promise_Some_iff scenario_defs promisable_defs promise_defs
      Let_def nth_append drain_simps)


lemma then_S_returns_rejected:
  assumes "in_flight w f" and "g v = Return (PromiseRef q)"
    and "lookup_promise w q = Some (Rejected e)"
  shows "(case settle_after (then_S f (User n g)) (promise f) (Succeeds v) w of (f', w2) \<Rightarrow>
            state_after w2 (promise f') = Some (Rejected e) \<and>
            trace_after w2 = Some (trace w @ [Called n v])) \<and>
         (case settle_before (then_S f (User n g)) (promise f) (Succeeds v) w of (f', w2) \<Rightarrow>
            state_after w2 (promise f') = Some (Rejected e) \<and>
            trace_after w2 = Some (trace w @ [Called n v]))"
proof -
  from assms have "queue w = []" "promise f < length (heap w)" "heap w ! promise f = Pending []"
    "q < length (heap w)" "heap w ! q = Rejected e" "q \<noteq> promise f"
    by (auto simp: in_flight_iff lookup_promise_Some_iff)
  with assms(2) show ?thesis
    by (simp add: scenario_defs promisable_defs promise_defs Let_def nth_append drain_simps)
qed


lemma then_S_returns_pending:
  assumes "in_flight w f" and "g v = Return (PromiseRef q)"
    and "q \<noteq> promise f" and "lookup_promise w q = Some (Pending [])"
  shows "(case settle_after (then_S f (User n g)) (promise f) (Succeeds v) w of (f', w2) \<Rightarrow>
            state_after w2 (promise f') = Some (Pending []) \<and>
            state_after (later w2 (reject_promise q e)) (promise f') = Some (Rejected e)) \<and>
         (case settle_before (then_S f (User n g)) (promise f) (Succeeds v) w of (f', w2) \<Rightarrow>
            state_after w2 (promise f') = Some (Pending []) \<and>
            state_after (later w2 (reject_promise q e)) (promise f') = Some (Rejected e))"
proof -
  from assms have "queue w = []" "promise f < length (heap w)" "heap w ! promise f = Pending []"
    "q < length (heap w)" "heap w ! q = Pending []"
    by (auto simp: in_flight_iff lookup_promise_Some_iff)
  with assms(2,3) show ?thesis
    by (simp add: scenario_defs promisable_defs promise_defs Let_def nth_append drain_simps)
qed

lemma in_flight_example: "in_flight example_world example_future"
  by (simp add: in_flight_iff example_world_def example_future_def fetch_S_def fetch_def
      new_promise_def promisable_def empty_world_def)

text \<open>
  Claim C5. Let the operation of \<open>f\<close> be in flight and let \<open>g\<close> be a callback of the
  caller. If the operation fails, then whether \<open>then$(g)\<close> was called before or after the
  failure, the derived future fails with the same cause and \<open>g\<close> is not invoked (the
  trace is unchanged). If the operation succeeds with \<open>v\<close>, then \<open>g\<close> is invoked once
  with \<open>v\<close>; if it throws, the derived future fails with what it threw; if it returns a
  rejected promise, the derived future fails with the reason of that promise; if it
  returns a pending promise that is rejected later, the derived future stays pending until
  then and fails with that reason.
\<close>

theorem then_S_failure:
  assumes "in_flight w f"
  shows "(case settle_after (then_S f (User n g)) (promise f) (Fails e) w of (f', w2) \<Rightarrow>
            state_after w2 (promise f') = Some (Rejected e) \<and> trace_after w2 = Some (trace w)) \<and>
         (case settle_before (then_S f (User n g)) (promise f) (Fails e) w of (f', w2) \<Rightarrow>
            state_after w2 (promise f') = Some (Rejected e) \<and> trace_after w2 = Some (trace w)) \<and>
         (g v = Throw e \<longrightarrow>
            (case settle_after (then_S f (User n g)) (promise f) (Succeeds v) w of (f', w2) \<Rightarrow>
               state_after w2 (promise f') = Some (Rejected e) \<and>
               trace_after w2 = Some (trace w @ [Called n v])) \<and>
            (case settle_before (then_S f (User n g)) (promise f) (Succeeds v) w of (f', w2) \<Rightarrow>
               state_after w2 (promise f') = Some (Rejected e) \<and>
               trace_after w2 = Some (trace w @ [Called n v]))) \<and>
         (g v = Return (PromiseRef q) \<and> lookup_promise w q = Some (Rejected e) \<longrightarrow>
            (case settle_after (then_S f (User n g)) (promise f) (Succeeds v) w of (f', w2) \<Rightarrow>
               state_after w2 (promise f') = Some (Rejected e) \<and>
               trace_after w2 = Some (trace w @ [Called n v])) \<and>
            (case settle_before (then_S f (User n g)) (promise f) (Succeeds v) w of (f', w2) \<Rightarrow>
               state_after w2 (promise f') = Some (Rejected e) \<and>
               trace_after w2 = Some (trace w @ [Called n v]))) \<and>
         (g v = Return (PromiseRef q) \<and> q \<noteq> promise f \<and> lookup_promise w q = Some (Pending []) \<longrightarrow>
            (case settle_after (then_S f (User n g)) (promise f) (Succeeds v) w of (f', w2) \<Rightarrow>
               state_after w2 (promise f') = Some (Pending []) \<and>
               state_after (later w2 (reject_promise q e)) (promise f') = Some (Rejected e)) \<and>
            (case settle_before (then_S f (User n g)) (promise f) (Succeeds v) w of (f', w2) \<Rightarrow>
               state_after w2 (promise f') = Some (Pending []) \<and>
               state_after (later w2 (reject_promise q e)) (promise f') = Some (Rejected e)))"
  using then_S_rejected [OF assms, where n = n and g = g and e = e]
    then_S_throws [OF assms, where n = n and g = g and e = e and v = v]
    then_S_returns_rejected [OF assms, where n = n and g = g and e = e and v = v and q = q]
    then_S_returns_pending [OF assms, where n = n and g = g and e = e and v = v and q = q]
  by (intro conjI impI; elim conjE; assumption?; simp)

text \<open>
  An instance: after \<open>fetch$('u').then$(g)\<close> with a \<open>g\<close> that throws, a network failure
  reaches the derived future without a call of \<open>g\<close>, and a success makes it fail with
  what \<open>g\<close> threw.
\<close>

theorem then_S_failure_witness:
  "in_flight example_world example_future \<and>
   (case settle_after (then_S example_future (User ''g'' (\<lambda>x. Throw (Err ''oops''))))
           (promise example_future) (Fails (Err ''offline'')) example_world of
      (f', w2) \<Rightarrow>
        state_after w2 (promise f') = Some (Rejected (Err ''offline'')) \<and>
        trace_after w2 = Some [Requested ''u'' None]) \<and>
   (case settle_after (then_S example_future (User ''g'' (\<lambda>x. Throw (Err ''oops''))))
           (promise example_future) (Succeeds (Data JNull)) example_world of
      (f', w2) \<Rightarrow>
        state_after w2 (promise f') = Some (Rejected (Err ''oops'')) \<and>
        trace_after w2 = Some [Requested ''u'' None, Called ''g'' (Data JNull)])"
  using then_S_failure [OF in_flight_example, where n = "''g''" and g = "\<lambda>x. Throw (Err ''oops'')"
      and e = "Err ''offline''" and v = "Data JNull" and q = 0]
    then_S_failure [OF in_flight_example, where n = "''g''" and g = "\<lambda>x. Throw (Err ''oops'')"
      and e = "Err ''oops''" and v = "Data JNull" and q = 0]
    in_flight_example
  by (simp add: example_world_def fetch_S_def fetch_def new_promise_def empty_world_def)

section \<open>\<open>subscribe\<close>\<close>

lemmas store_defs =
  readable_def store_subscribe_def subscribe_start_def store_set_def subscribe_def
  invalidations_def runs_def

text \<open>At subscribe time the observer is run once, with the placeholder, whatever the world.\<close>

lemma subscribe_runs_placeholder:
  "trace (snd (subscribe f run invalidate w)) = trace w @ [Ran run (initialValue f)]"
  by (simp add: store_defs promise_defs Let_def nth_append split: option.splits pstate.splits)

lemma subscribe_registers:
  assumes "in_flight w f"
  shows "lookup_promise (snd (subscribe f run invalidate w)) (promise f) =
     Some (Pending [Reaction (StoreSet (length (stores w))) NoHandler (Some (length (heap w)))])"
  using assms
  by (simp add: in_flight_iff store_defs promise_defs Let_def nth_append)

lemma subscribe_fulfilled:
  assumes "in_flight w f"
  shows "(case settle_after (subscribe f run invalidate) (promise f) (Succeeds v) w of (u, w2) \<Rightarrow>
            trace_after w2 = Some (trace w @ [Ran run (initialValue f)] @
              (if safe_not_equal (initialValue f) v
               then (case invalidate of None \<Rightarrow> [] | Some l \<Rightarrow> [Invalidated l]) @ [Ran run v]
               else []))) \<and>
         (case settle_before (subscribe f run invalidate) (promise f) (Succeeds v) w of (u, w2) \<Rightarrow>
            trace_after w2 = Some (trace w @ [Ran run (initialValue f)] @
              (if safe_not_equal (initialValue f) v
               then (case invalidate of None \<Rightarrow> [] | Some l \<Rightarrow> [Invalidated l]) @ [Ran run v]
               else [])))"
  using assms
  by (simp add: in_flight_iff scenario_defs store_defs promise_defs Let_def nth_append drain_simps
      split: option.splits)

lemma subscribe_rejected:
  assumes "in_flight w f"
  shows "(case settle_after (subscribe f run invalidate) (promise f) (Fails e) w of (u, w2) \<Rightarrow>
            trace_after w2 = Some (trace w @ [Ran run (initialValue f)]) \<and>
            state_after w2 (length (heap w)) = Some (Rejected e)) \<and>
         (case settle_before (subscribe f run invalidate) (promise f) (Fails e) w of (u, w2) \<Rightarrow>
            trace_after w2 = Some (trace w @ [Ran run (initialValue f)]) \<and>
            state_after w2 (length (heap w)) = Some (Rejected e))"
  using assms
  by (simp add: in_flight_iff scenario_defs store_defs promise_defs Let_def nth_append drain_simps)


lemmas example_defs =
  example_world_def example_future_def done_world_def done_future_def empty_world_def
  fetch_S_def fetch_def

text \<open>
  Claim C2, as the code has it. Let the operation of \<open>f\<close> be in flight. Subscribing runs
  the observer at once with the placeholder. When the operation succeeds with \<open>v\<close>, before
  or after the subscription, the store sets \<open>v\<close>; the observer is invalidated and run
  with \<open>v\<close>, once, if \<open>safe_not_equal\<close> tells \<open>v\<close> from the placeholder, and it is
  not run again if \<open>v\<close> is a primitive value equal to the placeholder.
\<close>

theorem subscribe_placeholder_then_value:
  assumes "in_flight w f"
  shows "trace (snd (subscribe f run invalidate w)) = trace w @ [Ran run (initialValue f)] \<and>
         (case settle_after (subscribe f run invalidate) (promise f) (Succeeds v) w of (u, w2) \<Rightarrow>
            trace_after w2 = Some (trace w @ [Ran run (initialValue f)] @
              (if safe_not_equal (initialValue f) v
               then (case invalidate of None \<Rightarrow> [] | Some l \<Rightarrow> [Invalidated l]) @ [Ran run v]
               else []))) \<and>
         (case settle_before (subscribe f run invalidate) (promise f) (Succeeds v) w of (u, w2) \<Rightarrow>
            trace_after w2 = Some (trace w @ [Ran run (initialValue f)] @
              (if safe_not_equal (initialValue f) v
               then (case invalidate of None \<Rightarrow> [] | Some l \<Rightarrow> [Invalidated l]) @ [Ran run v]
               else [])))"
  using subscribe_fulfilled [OF assms, where run = run and invalidate = invalidate and v = v]
  by (simp add: subscribe_runs_placeholder)

text \<open>
  An instance: an observer of \<open>fetch$('u')\<close> sees \<open>undefined\<close> and then the response.
\<close>

theorem subscribe_placeholder_then_value_witness:
  "in_flight example_world example_future \<and>
   trace_after (snd (settle_after (subscribe example_future ''run'' None) (promise example_future)
       (Succeeds (Resp ok_response)) example_world))
     = Some [Requested ''u'' None, Ran ''run'' (Data JUndefined), Ran ''run'' (Resp ok_response)]"
  using subscribe_placeholder_then_value [OF in_flight_example, where run = "''run''"
      and invalidate = None and v = "Resp ok_response"] in_flight_example
  by (simp add: split_def safe_not_equal_def is_object_def example_world_def example_future_def
      fetch_S_def fetch_def new_promise_def promisable_def empty_world_def)

text \<open>
  The claim fails where the settled value is a primitive equal to the placeholder. The
  operation behind \<open>fetch$('u')\<close> resolves to \<open>undefined\<close>: the observer is run once.
  And in \<open>fetch$('u').then$(() => {})\<close> the derived operation resolves to
  \<open>undefined\<close> after the response has arrived and the callback has been called: the
  observer of the derived future is run once.
\<close>

theorem subscribe_same_value_runs_once:
  "trace_after (snd (settle_after (subscribe example_future ''run'' None) (promise example_future)
       (Succeeds (Data JUndefined)) example_world))
     = Some [Requested ''u'' None, Ran ''run'' (Data JUndefined)] \<and>
   trace_after (snd (settle_after (subscribe done_future ''run'' None) (promise example_future)
       (Succeeds (Resp ok_response)) done_world))
     = Some [Requested ''u'' None, Ran ''run'' (Data JUndefined), Called ''done'' (Resp ok_response)] \<and>
   state_after (snd (settle_after (subscribe done_future ''run'' None) (promise example_future)
       (Succeeds (Resp ok_response)) done_world)) (promise done_future)
     = Some (Fulfilled (Data JUndefined))"
  by (simp add: example_defs scenario_defs store_defs promisable_defs promise_defs
      safe_not_equal_def is_object_def returns_undefined_def Let_def drain_simps)

text \<open>
  Claim C3. Let the operation of \<open>f\<close> be in flight. Subscribing stores one reaction on
  the promise of \<open>f\<close>, with the setter of the store for success and no handler for
  failure. When the operation fails, before or after the subscription, nothing is added
  to the trace after the run of the observer with the placeholder: the observer is not
  run again and no other callback is called. The failure ends in the promise that
  \<open>then\<close> returned inside \<open>subscribe\<close>, which nothing listens to.
\<close>

theorem subscribe_ignores_failure:
  assumes "in_flight w f"
  shows "lookup_promise (snd (subscribe f run invalidate w)) (promise f) =
           Some (Pending [Reaction (StoreSet (length (stores w))) NoHandler (Some (length (heap w)))]) \<and>
         (case settle_after (subscribe f run invalidate) (promise f) (Fails e) w of (u, w2) \<Rightarrow>
            trace_after w2 = Some (trace w @ [Ran run (initialValue f)]) \<and>
            state_after w2 (length (heap w)) = Some (Rejected e)) \<and>
         (case settle_before (subscribe f run invalidate) (promise f) (Fails e) w of (u, w2) \<Rightarrow>
            trace_after w2 = Some (trace w @ [Ran run (initialValue f)]) \<and>
            state_after w2 (length (heap w)) = Some (Rejected e))"
  using subscribe_registers [OF assms, where run = run and invalidate = invalidate]
    subscribe_rejected [OF assms, where run = run and invalidate = invalidate and e = e]
  by simp

theorem subscribe_ignores_failure_witness:
  "in_flight example_world example_future \<and>
   trace_after (snd (settle_after (subscribe example_future ''run'' (Some ''invalidate''))
       (promise example_future) (Fails (Err ''offline'')) example_world))
     = Some [Requested ''u'' None, Ran ''run'' (Data JUndefined)]"
  using subscribe_ignores_failure [OF in_flight_example, where run = "''run''"
      and invalidate = "Some ''invalidate''" and e = "Err ''offline''"] in_flight_example
  by (simp add: split_def example_world_def example_future_def
      fetch_S_def fetch_def new_promise_def promisable_def empty_world_def)

section \<open>\<open>startWith$\<close>\<close>

text \<open>
  Claim C7. \<open>startWith$(q)\<close> returns the future \<open>f\<close> with the placeholder replaced by
  \<open>q\<close>: the promise is the same one, so its state is the state of the promise of \<open>f\<close>
  in every world, and the world is left as it was: no promise is created, no reaction is
  stored, no request is made.
\<close>

theorem startWith_S_same_promise:
  "fst (startWith_S f q w) = f\<lparr>initialValue := q\<rparr> \<and>
   promise (fst (startWith_S f q w)) = promise f \<and>
   snd (startWith_S f q w) = w \<and>
   issued w (snd (startWith_S f q w)) = [] \<and>
   lookup_promise w' (promise (fst (startWith_S f q w))) = lookup_promise w' (promise f)"
  by (simp add: startWith_S_def promisable_def issued_def)

section \<open>Error classification\<close>

lemmas handler_defs =
  fetchErrorHandled_handler_def fetchJson_handler_def response_json_def response_text_def
  finally_closure_def

lemmas request_defs = fetch_S_def fetch_def fetchErrorHandled_S_def fetchJson_S_def

lemma classify_ok:
  assumes "queue w = []" and "ok r"
  shows "(case settle_after (fetchErrorHandled_S input init) (promise (fst (fetch_S input init w)))
                (Succeeds (Resp r)) w of (f, w2) \<Rightarrow>
            state_after w2 (promise f) = Some (Fulfilled (Resp r)))"
  using assms
  by (simp add: scenario_defs request_defs promisable_defs promise_defs handler_defs
      Let_def nth_append drain_simps)

lemma classify_json:
  assumes "queue w = []" and "\<not> ok r"
    and "map_of (headers r) ''content-type'' = Some ct" and "str_includes ct ''application/json''"
  shows "(case settle_after (fetchErrorHandled_S input init) (promise (fst (fetch_S input init w)))
                (Succeeds (Resp r)) w of (f, w2) \<Rightarrow>
            state_after w2 (promise f) =
              Some (Rejected (case json_read r of
                                Inr j \<Rightarrow> new_HttpError (status r) (statusText r) (Data j)
                              | Inl err \<Rightarrow> Err err)))"
  using assms
  by (cases "json_read r")
     (simp_all add: scenario_defs request_defs promisable_defs promise_defs handler_defs
      Let_def nth_append drain_simps)

lemma classify_text:
  assumes "queue w = []" and "\<not> ok r"
    and "case map_of (headers r) ''content-type'' of
           None \<Rightarrow> True | Some ct \<Rightarrow> \<not> str_includes ct ''application/json''"
  shows "(case settle_after (fetchErrorHandled_S input init) (promise (fst (fetch_S input init w)))
                (Succeeds (Resp r)) w of (f, w2) \<Rightarrow>
            state_after w2 (promise f) =
              Some (Rejected (case text_read r of
                                Inr t \<Rightarrow> new_HttpError (status r) (statusText r) (Data (JStr t))
                              | Inl err \<Rightarrow> Err err)))"
  using assms
  by (cases "text_read r"; cases "map_of (headers r) ''content-type''")
     (simp_all add: scenario_defs request_defs promisable_defs promise_defs handler_defs
      Let_def nth_append drain_simps)

lemma classify_transport_failure:
  assumes "queue w = []"
  shows "(case settle_after (fetchErrorHandled_S input init) (promise (fst (fetch_S input init w)))
                (Fails e) w of (f, w2) \<Rightarrow>
            state_after w2 (promise f) = Some (Rejected e))"
  using assms
  by (simp add: scenario_defs request_defs promisable_defs promise_defs handler_defs
      Let_def nth_append drain_simps)


text \<open>
  Claim C4, as the code has it. A request is made by \<open>fetchErrorHandled$\<close> with no job
  waiting, and the network answers with the response \<open>r\<close>. If \<open>r.ok\<close> holds, the
  future succeeds with \<open>r\<close> itself. Otherwise the body is read, as JSON if the
  \<open>content-type\<close> header includes \<open>application/json\<close> and as text if it does not or is
  absent; if the read succeeds, the future fails with an \<open>HttpError\<close> that carries the
  status, the status text and the body that was read; if the read fails, the future fails
  with the error of the read. A failure of the network is passed on as it is.
\<close>

theorem fetchErrorHandled_S_classifies:
  assumes "queue w = []"
  shows "(ok r \<longrightarrow>
            (case settle_after (fetchErrorHandled_S input init) (promise (fst (fetch_S input init w)))
                    (Succeeds (Resp r)) w of (f, w2) \<Rightarrow>
               state_after w2 (promise f) = Some (Fulfilled (Resp r)))) \<and>
         (\<not> ok r \<and> map_of (headers r) ''content-type'' = Some ct \<and>
            str_includes ct ''application/json'' \<longrightarrow>
            (case settle_after (fetchErrorHandled_S input init) (promise (fst (fetch_S input init w)))
                    (Succeeds (Resp r)) w of (f, w2) \<Rightarrow>
               state_after w2 (promise f) =
                 Some (Rejected (case json_read r of
                                   Inr j \<Rightarrow> new_HttpError (status r) (statusText r) (Data j)
                                 | Inl err \<Rightarrow> Err err)))) \<and>
         (\<not> ok r \<and> (case map_of (headers r) ''content-type'' of
                         None \<Rightarrow> True | Some c \<Rightarrow> \<not> str_includes c ''application/json'') \<longrightarrow>
            (case settle_after (fetchErrorHandled_S input init) (promise (fst (fetch_S input init w)))
                    (Succeeds (Resp r)) w of (f, w2) \<Rightarrow>
               state_after w2 (promise f) =
                 Some (Rejected (case text_read r of
                                   Inr t \<Rightarrow> new_HttpError (status r) (statusText r) (Data (JStr t))
                                 | Inl err \<Rightarrow> Err err)))) \<and>
         (case settle_after (fetchErrorHandled_S input init) (promise (fst (fetch_S input init w)))
                 (Fails e) w of (f, w2) \<Rightarrow>
            state_after w2 (promise f) = Some (Rejected e))"
  using classify_ok [OF assms, where r = r and input = input and init = init]
    classify_json [OF assms, where r = r and input = input and init = init and ct = ct]
    classify_text [OF assms, where r = r and input = input and init = init]
    classify_transport_failure [OF assms, where input = input and init = init and e = e]
  by (intro conjI impI; (elim conjE)?; simp)

text \<open>
  The two scenarios of the claim: status 404 with a JSON body \<open>{"error":"missing"}\<close>, and
  status 500 with the text body \<open>boom\<close>.
\<close>

theorem fetchErrorHandled_S_classifies_witness:
  \<open>queue empty_world = [] \<and>
   state_after (snd (settle_after (fetchErrorHandled_S ''u'' None)
        (promise (fst (fetch_S ''u'' None empty_world))) (Succeeds (Resp missing_response)) empty_world))
      (promise (fst (settle_after (fetchErrorHandled_S ''u'' None)
        (promise (fst (fetch_S ''u'' None empty_world))) (Succeeds (Resp missing_response)) empty_world)))
     = Some (Rejected (HttpError ''HttpError'' ''Not Found'' 404 ''Not Found''
               (Data (JObj [(''error'', JStr ''missing'')])))) \<and>
   state_after (snd (settle_after (fetchErrorHandled_S ''u'' None)
        (promise (fst (fetch_S ''u'' None empty_world))) (Succeeds (Resp boom_response)) empty_world))
      (promise (fst (settle_after (fetchErrorHandled_S ''u'' None)
        (promise (fst (fetch_S ''u'' None empty_world))) (Succeeds (Resp boom_response)) empty_world)))
     = Some (Rejected (HttpError ''HttpError'' ''Internal Server Error'' 500 ''Internal Server Error''
               (Data (JStr ''boom''))))\<close>
proof -
  have q: "queue empty_world = []"
    by (simp add: empty_world_def)
  show ?thesis
    using q fetchErrorHandled_S_classifies [OF q, where r = missing_response and input = "''u''"
        and init = None and ct = "''application/json''" and e = "Err ''offline''"]
      fetchErrorHandled_S_classifies [OF q, where r = boom_response and input = "''u''"
        and init = None and ct = "''text/plain''" and e = "Err ''offline''"]
    by (simp add: split_def missing_response_def boom_response_def new_HttpError_def)
qed

text \<open>
  The claim fails where the body cannot be read: a response with status 404 that declares
  JSON and carries something else makes the future fail with the \<open>SyntaxError\<close> of
  \<open>response.json()\<close>, not with an \<open>HttpError\<close>.
\<close>

theorem fetchErrorHandled_S_unreadable_body:
  "state_after (snd (settle_after (fetchErrorHandled_S ''u'' None)
        (promise (fst (fetch_S ''u'' None empty_world))) (Succeeds (Resp broken_response)) empty_world))
      (promise (fst (settle_after (fetchErrorHandled_S ''u'' None)
        (promise (fst (fetch_S ''u'' None empty_world))) (Succeeds (Resp broken_response)) empty_world)))
     = Some (Rejected (Err ''SyntaxError''))"
  by (simp add: empty_world_def broken_response_def scenario_defs request_defs promisable_defs
      promise_defs handler_defs Let_def drain_simps)

section \<open>\<open>finally$\<close>\<close>

lemma plain_cases:
  assumes "plain v"
  obtains d where "v = Data d" | r where "v = Resp r"
    | a b c d e where "v = HttpError a b c d e" | n where "v = Err n"
  using assms by (cases v) (simp_all add: plain_def)

lemma fulfilled_or_plain_cases:
  assumes "fulfilled_or_plain w r"
  obtains "plain r" | q x where "r = PromiseRef q" "q < length (heap w)" "heap w ! q = Fulfilled x"
  using assms
  by (cases r)
     (auto simp: fulfilled_or_plain_def plain_def lookup_promise_def
       split: option.splits pstate.splits if_splits)

lemma finally_S_fulfilled:
  assumes "in_flight w f" and "s (Data JUndefined) = Return r" and "fulfilled_or_plain w r"
    and "plain v"
  shows "(case settle_after (finally_S f (User n s)) (promise f) (Succeeds v) w of (f', w2) \<Rightarrow>
            state_after w2 (promise f') = Some (Fulfilled v) \<and>
            trace_after w2 = Some (trace w @ [Called n (Data JUndefined)]) \<and>
            initialValue f' = initialValue f) \<and>
         (case settle_before (finally_S f (User n s)) (promise f) (Succeeds v) w of (f', w2) \<Rightarrow>
            state_after w2 (promise f') = Some (Fulfilled v) \<and>
            trace_after w2 = Some (trace w @ [Called n (Data JUndefined)]) \<and>
            initialValue f' = initialValue f)"
proof -
  from assms(1) have w: "queue w = []" "promise f < length (heap w)" "heap w ! promise f = Pending []"
    by (auto simp: in_flight_iff)
  from assms(3) show ?thesis
  proof (cases rule: fulfilled_or_plain_cases)
    case 1
    then show ?thesis
      using w assms(2) assms(4)
      by (cases rule: plain_cases; cases rule: plain_cases [OF assms(4)])
         (simp_all add: scenario_defs promisable_defs promise_defs handler_defs Let_def nth_append
           drain_simps)
  next
    case (2 q x)
    with w have "q \<noteq> promise f" by auto
    with 2 w assms(2) show ?thesis
      by (cases rule: plain_cases [OF assms(4)])
         (simp_all add: scenario_defs promisable_defs promise_defs handler_defs Let_def nth_append
           drain_simps)
  qed
qed

lemma finally_S_rejected:
  assumes "in_flight w f" and "s (Data JUndefined) = Return r" and "fulfilled_or_plain w r"
  shows "(case settle_after (finally_S f (User n s)) (promise f) (Fails e) w of (f', w2) \<Rightarrow>
            state_after w2 (promise f') = Some (Rejected e) \<and>
            trace_after w2 = Some (trace w @ [Called n (Data JUndefined)]) \<and>
            initialValue f' = initialValue f) \<and>
         (case settle_before (finally_S f (User n s)) (promise f) (Fails e) w of (f', w2) \<Rightarrow>
            state_after w2 (promise f') = Some (Rejected e) \<and>
            trace_after w2 = Some (trace w @ [Called n (Data JUndefined)]) \<and>
            initialValue f' = initialValue f)"
proof -
  from assms(1) have w: "queue w = []" "promise f < length (heap w)" "heap w ! promise f = Pending []"
    by (auto simp: in_flight_iff)
  from assms(3) show ?thesis
  proof (cases rule: fulfilled_or_plain_cases)
    case 1
    then show ?thesis
      using w assms(2)
      by (cases rule: plain_cases)
         (simp_all add: scenario_defs promisable_defs promise_defs handler_defs Let_def nth_append
           drain_simps)
  next
    case (2 q x)
    with w have "q \<noteq> promise f" by auto
    with 2 w assms(2) show ?thesis
      by (simp add: scenario_defs promisable_defs promise_defs handler_defs Let_def nth_append
           drain_simps)
  qed
qed


text \<open>
  Claim C8, as the code has it. Let the operation of \<open>f\<close> be in flight and let the
  callback \<open>s\<close> return normally, with a value that is not a promise or with a fulfilled
  promise. Then, whether \<open>finally$(s)\<close> was called before or after the operation
  completed, \<open>s\<close> is called exactly once, without argument, and the derived future has
  the placeholder of \<open>f\<close> and the outcome of \<open>f\<close>: the same value on success, the same
  cause on failure.
\<close>

theorem finally_S_keeps_outcome:
  assumes "in_flight w f" and "s (Data JUndefined) = Return r" and "fulfilled_or_plain w r"
  shows "(plain v \<longrightarrow>
            (case settle_after (finally_S f (User n s)) (promise f) (Succeeds v) w of (f', w2) \<Rightarrow>
               state_after w2 (promise f') = Some (Fulfilled v) \<and>
               trace_after w2 = Some (trace w @ [Called n (Data JUndefined)]) \<and>
               initialValue f' = initialValue f) \<and>
            (case settle_before (finally_S f (User n s)) (promise f) (Succeeds v) w of (f', w2) \<Rightarrow>
               state_after w2 (promise f') = Some (Fulfilled v) \<and>
               trace_after w2 = Some (trace w @ [Called n (Data JUndefined)]) \<and>
               initialValue f' = initialValue f)) \<and>
         (case settle_after (finally_S f (User n s)) (promise f) (Fails e) w of (f', w2) \<Rightarrow>
            state_after w2 (promise f') = Some (Rejected e) \<and>
            trace_after w2 = Some (trace w @ [Called n (Data JUndefined)]) \<and>
            initialValue f' = initialValue f) \<and>
         (case settle_before (finally_S f (User n s)) (promise f) (Fails e) w of (f', w2) \<Rightarrow>
            state_after w2 (promise f') = Some (Rejected e) \<and>
            trace_after w2 = Some (trace w @ [Called n (Data JUndefined)]) \<and>
            initialValue f' = initialValue f)"
  using finally_S_fulfilled [where w = w and f = f and s = s and r = r and v = v and n = n, OF assms]
    finally_S_rejected [where w = w and f = f and s = s and r = r and e = e and n = n, OF assms]
  by (intro conjI impI; (elim conjE)?; simp)

text \<open>
  An instance: \<open>fetch$('u').finally$(s)\<close> with an \<open>s\<close> that returns \<open>undefined\<close>; the
  response and a network failure both pass through, after one call of \<open>s\<close>.
\<close>

theorem finally_S_keeps_outcome_witness:
  "in_flight example_world example_future \<and>
   returns_undefined (Data JUndefined) = Return (Data JUndefined) \<and>
   fulfilled_or_plain example_world (Data JUndefined) \<and>
   plain (Resp ok_response) \<and>
   state_after (snd (settle_after (finally_S example_future (User ''s'' returns_undefined))
        (promise example_future) (Succeeds (Resp ok_response)) example_world))
      (promise (fst (settle_after (finally_S example_future (User ''s'' returns_undefined))
        (promise example_future) (Succeeds (Resp ok_response)) example_world)))
     = Some (Fulfilled (Resp ok_response)) \<and>
   trace_after (snd (settle_after (finally_S example_future (User ''s'' returns_undefined))
        (promise example_future) (Succeeds (Resp ok_response)) example_world))
     = Some [Requested ''u'' None, Called ''s'' (Data JUndefined)] \<and>
   state_after (snd (settle_after (finally_S example_future (User ''s'' returns_undefined))
        (promise example_future) (Fails (Err ''offline'')) example_world))
      (promise (fst (settle_after (finally_S example_future (User ''s'' returns_undefined))
        (promise example_future) (Fails (Err ''offline'')) example_world)))
     = Some (Rejected (Err ''offline''))"
proof -
  have s: "returns_undefined (Data JUndefined) = Return (Data JUndefined)"
    by (simp add: returns_undefined_def)
  have r: "fulfilled_or_plain example_world (Data JUndefined)"
    by (simp add: fulfilled_or_plain_def)
  have v: "plain (Resp ok_response)"
    by (simp add: plain_def)
  show ?thesis
    using finally_S_keeps_outcome [where w = example_world and f = example_future
        and s = returns_undefined and r = "Data JUndefined" and v = "Resp ok_response"
        and n = "''s''" and e = "Err ''offline''", OF in_flight_example s r]
      in_flight_example s r v
    by (simp add: split_def example_world_def fetch_S_def fetch_def new_promise_def empty_world_def)
qed

text \<open>
  The claim fails where the callback does not return normally: in
  \<open>fetch$('u').finally$(s)\<close> with an \<open>s\<close> that throws, the response arrives, \<open>s\<close> is
  called, and the derived future fails with what \<open>s\<close> threw.
\<close>

theorem finally_S_callback_throws:
  "state_after (snd (settle_after (finally_S example_future (User ''s'' throws_oops))
        (promise example_future) (Succeeds (Resp ok_response)) example_world))
      (promise (fst (settle_after (finally_S example_future (User ''s'' throws_oops))
        (promise example_future) (Succeeds (Resp ok_response)) example_world)))
     = Some (Rejected (Err ''oops'')) \<and>
   trace_after (snd (settle_after (finally_S example_future (User ''s'' throws_oops))
        (promise example_future) (Succeeds (Resp ok_response)) example_world))
     = Some [Requested ''u'' None, Called ''s'' (Data JUndefined)]"
  by (simp add: example_defs scenario_defs promisable_defs promise_defs handler_defs
      throws_oops_def Let_def drain_simps)

section \<open>Chains of \<open>then$\<close>\<close>

lemma plain_simps:
  "plain (Data d)" "plain (Resp r)" "plain (HttpError nm msg st stt bd)" "plain (Err n)"
  "\<not> plain (PromiseRef q)"
  by (simp_all add: plain_def)

lemma resolve_promise_plain: "plain x \<Longrightarrow> resolve_promise p x w = fulfill_promise p x w"
  by (cases x) (simp_all add: resolve_promise_def plain_def)

lemma resolve_promise_ref:
  "resolve_promise p (PromiseRef q) w =
     (if q = p then reject_promise p (Err ''TypeError'') w
      else w\<lparr>queue := queue w @ [ThenableJob p q]\<rparr>)"
  by (simp add: resolve_promise_def)

lemmas step_defs =
  lookup_promise_def new_promise_def fulfill_job_def reject_job_def fulfill_promise_def
  reject_promise_def plain_simps resolve_promise_plain resolve_promise_ref perform_then_def promise_then_def
  run_job_def call_handler_def then_S_def then_then_def promisable_def composed_def

lemma then_then_composed_fails:
  assumes "in_flight w f"
  shows "(case settle_after (then_then f (User na a) (User nb b)) (promise f) (Fails e) w of
            (f2, w2) \<Rightarrow>
              (case settle_after (then_S f (User nc (composed a b))) (promise f) (Fails e) w of
                 (g, w3) \<Rightarrow>
                   state_after w2 (promise f2) = Some (Rejected e) \<and>
                   state_after w3 (promise g) = Some (Rejected e) \<and>
                   trace_after w2 = Some (trace w) \<and> trace_after w3 = Some (trace w))) \<and>
         (case settle_before (then_then f (User na a) (User nb b)) (promise f) (Fails e) w of
            (f2, w2) \<Rightarrow>
              (case settle_before (then_S f (User nc (composed a b))) (promise f) (Fails e) w of
                 (g, w3) \<Rightarrow>
                   state_after w2 (promise f2) = Some (Rejected e) \<and>
                   state_after w3 (promise g) = Some (Rejected e) \<and>
                   trace_after w2 = Some (trace w) \<and> trace_after w3 = Some (trace w)))"
  using assms
  by (simp add: in_flight_iff scenario_defs step_defs Let_def nth_append drain_simps)

lemma then_then_composed_succeeds:
  assumes "in_flight w f" and pv: "plain v"
    and a: "\<And>x. case a x of Return y \<Rightarrow> plain y | Throw e \<Rightarrow> True"
    and b: "\<And>x. case b x of Return z \<Rightarrow> known w z | Throw e \<Rightarrow> True"
  shows "(case settle_after (then_then f (User na a) (User nb b)) (promise f) (Succeeds v) w of
            (f2, w2) \<Rightarrow>
              (case settle_after (then_S f (User nc (composed a b))) (promise f) (Succeeds v) w of
                 (g, w3) \<Rightarrow>
                   (\<exists>st. state_after w2 (promise f2) = Some st \<and>
                         state_after w3 (promise g) = Some st))) \<and>
         (case settle_before (then_then f (User na a) (User nb b)) (promise f) (Succeeds v) w of
            (f2, w2) \<Rightarrow>
              (case settle_before (then_S f (User nc (composed a b))) (promise f) (Succeeds v) w of
                 (g, w3) \<Rightarrow>
                   (\<exists>st. state_after w2 (promise f2) = Some st \<and>
                         state_after w3 (promise g) = Some st)))"
proof -
  from assms(1) have w: "queue w = []" "promise f < length (heap w)" "heap w ! promise f = Pending []"
    by (auto simp: in_flight_iff)
  show ?thesis
  proof (cases "a v")
    case (Throw e)
    with w show ?thesis
      by (simp add: scenario_defs step_defs Let_def nth_append drain_simps)
  next
    case (Return y)
    note av = this
    with a [of v] have py: "plain y" by simp
    show ?thesis
    proof (cases "b y")
      case (Throw e)
      with w av py show ?thesis
        by (simp add: scenario_defs step_defs Let_def nth_append drain_simps)
    next
      case (Return z)
      note bz = this
      with b [of y] have kz: "known w z" by simp
      show ?thesis
      proof (cases "plain z")
        case True
        with w av py bz show ?thesis
          by (simp add: scenario_defs step_defs Let_def nth_append drain_simps)
      next
        case False
        then obtain q where z: "z = PromiseRef q"
          by (cases z) (simp_all add: plain_def)
        with kz have q: "q < length (heap w)"
          and st: "case heap w ! q of Fulfilled x \<Rightarrow> plain x | _ \<Rightarrow> True"
          by (auto simp: known_def lookup_promise_def split: if_splits pstate.splits)
        show ?thesis
        proof (cases "q = promise f")
          case True
          with w av py bz z pv show ?thesis
            by (simp add: scenario_defs step_defs Let_def nth_append drain_simps)
        next
          case False
          note qf = this
          show ?thesis
          proof (cases "heap w ! q")
            case (Pending rs)
            with w av py bz z q qf show ?thesis
              by (simp add: scenario_defs step_defs Let_def nth_append drain_simps)
          next
            case (Fulfilled x)
            with st have "plain x" by simp
            with Fulfilled w av py bz z q qf show ?thesis
              by (simp add: scenario_defs step_defs Let_def nth_append drain_simps)
          next
            case (Rejected e)
            with w av py bz z q qf show ?thesis
              by (simp add: scenario_defs step_defs Let_def nth_append drain_simps)
          qed
        qed
      qed
    qed
  qed
qed


lemma trace_catch_S [simp]: "trace (snd (catch_S f h w)) = trace w"
  by (simp add: catch_S_def promise_catch_def split_def Let_def)

lemma trace_finally_S [simp]: "trace (snd (finally_S f h w)) = trace w"
  by (cases h) (simp_all add: finally_S_def promise_finally_def split_def Let_def)

lemma derived_is_new:
  "promise (fst (then_S f h w)) = length (heap w)"
  "promise (fst (catch_S f h w)) = length (heap w)"
  "promise (fst (finally_S f h w)) = length (heap w)"
  "initialValue (fst (then_S f h w)) = initialValue f"
  "initialValue (fst (catch_S f h w)) = initialValue f"
  "initialValue (fst (finally_S f h w)) = initialValue f"
  by (cases h; simp add: promisable_defs promise_then_def promise_catch_def promise_finally_def
      new_promise_def split_def Let_def)+

text \<open>
  Claim C6, as the code has it. Let the operation of \<open>f\<close> be in flight, let \<open>a\<close> be a
  callback that returns a value that is not a promise, or throws, and let \<open>b\<close> be a
  callback that returns such a value, or a promise that exists already, or throws. Then
  \<open>f.then$(a).then$(b)\<close> and \<open>f.then$(x => b(a(x)))\<close> end in the same state, whether the
  operation completes before or after the chaining: on failure both fail with the cause
  and no callback is called; on success both microtask runs end and the two derived
  promises are in the same state. \<open>then$\<close>, \<open>catch$\<close> and \<open>finally$\<close> return a future
  with the placeholder of \<open>f\<close> on a promise that did not exist before, and they make no
  request.
\<close>

theorem then_then_is_then_composed:
  assumes "in_flight w f"
    and "\<And>x. case a x of Return y \<Rightarrow> plain y | Throw e \<Rightarrow> True"
    and "\<And>x. case b x of Return z \<Rightarrow> known w z | Throw e \<Rightarrow> True"
  shows "(plain v \<longrightarrow>
            (case settle_after (then_then f (User na a) (User nb b)) (promise f) (Succeeds v) w of
               (f2, w2) \<Rightarrow>
                 (case settle_after (then_S f (User nc (composed a b))) (promise f) (Succeeds v) w of
                    (g, w3) \<Rightarrow>
                      (\<exists>st. state_after w2 (promise f2) = Some st \<and>
                            state_after w3 (promise g) = Some st))) \<and>
            (case settle_before (then_then f (User na a) (User nb b)) (promise f) (Succeeds v) w of
               (f2, w2) \<Rightarrow>
                 (case settle_before (then_S f (User nc (composed a b))) (promise f) (Succeeds v) w of
                    (g, w3) \<Rightarrow>
                      (\<exists>st. state_after w2 (promise f2) = Some st \<and>
                            state_after w3 (promise g) = Some st)))) \<and>
         (case settle_after (then_then f (User na a) (User nb b)) (promise f) (Fails e) w of
            (f2, w2) \<Rightarrow>
              (case settle_after (then_S f (User nc (composed a b))) (promise f) (Fails e) w of
                 (g, w3) \<Rightarrow>
                   state_after w2 (promise f2) = Some (Rejected e) \<and>
                   state_after w3 (promise g) = Some (Rejected e) \<and>
                   trace_after w2 = Some (trace w) \<and> trace_after w3 = Some (trace w))) \<and>
         (case settle_before (then_then f (User na a) (User nb b)) (promise f) (Fails e) w of
            (f2, w2) \<Rightarrow>
              (case settle_before (then_S f (User nc (composed a b))) (promise f) (Fails e) w of
                 (g, w3) \<Rightarrow>
                   state_after w2 (promise f2) = Some (Rejected e) \<and>
                   state_after w3 (promise g) = Some (Rejected e) \<and>
                   trace_after w2 = Some (trace w) \<and> trace_after w3 = Some (trace w))) \<and>
         promise f < promise (fst (then_S f h w)) \<and>
         promise f < promise (fst (catch_S f h w)) \<and>
         promise f < promise (fst (finally_S f h w)) \<and>
         lookup_promise w (promise (fst (then_S f h w))) = None \<and>
         lookup_promise w (promise (fst (catch_S f h w))) = None \<and>
         lookup_promise w (promise (fst (finally_S f h w))) = None \<and>
         initialValue (fst (then_S f h w)) = initialValue f \<and>
         initialValue (fst (catch_S f h w)) = initialValue f \<and>
         initialValue (fst (finally_S f h w)) = initialValue f \<and>
         issued w (snd (then_S f h w)) = [] \<and>
         issued w (snd (catch_S f h w)) = [] \<and>
         issued w (snd (finally_S f h w)) = []"
proof -
  from assms(1) have lt: "promise f < length (heap w)"
    by (simp add: in_flight_iff)
  have new: "lookup_promise w (length (heap w)) = None"
    by (simp add: lookup_promise_def)
  show ?thesis
    using then_then_composed_succeeds [where w = w and f = f and a = a and b = b and v = v
        and na = na and nb = nb and nc = nc, OF assms(1) _ assms(2,3)]
      then_then_composed_fails [OF assms(1), where a = a and b = b and e = e
        and na = na and nb = nb and nc = nc] lt new
    by (intro conjI impI; (elim conjE)?; simp add: derived_is_new issued_def)
qed

text \<open>
  An instance: \<open>fetch$('u').then$(a).then$(a)\<close> and \<open>fetch$('u').then$(x => a(a(x)))\<close>
  for the callback \<open>a\<close> that adds one, where the operation resolves to 1: both end with 3.
\<close>

theorem then_then_is_then_composed_witness:
  "in_flight example_world example_future \<and> plain (Data (JNum 1)) \<and>
   state_after (snd (settle_after (then_then example_future (User ''a'' add_one) (User ''b'' add_one))
        (promise example_future) (Succeeds (Data (JNum 1))) example_world))
      (promise (fst (settle_after (then_then example_future (User ''a'' add_one) (User ''b'' add_one))
        (promise example_future) (Succeeds (Data (JNum 1))) example_world)))
     = Some (Fulfilled (Data (JNum 3))) \<and>
   state_after (snd (settle_after (then_S example_future (User ''ab'' (composed add_one add_one)))
        (promise example_future) (Succeeds (Data (JNum 1))) example_world))
      (promise (fst (settle_after (then_S example_future (User ''ab'' (composed add_one add_one)))
        (promise example_future) (Succeeds (Data (JNum 1))) example_world)))
     = Some (Fulfilled (Data (JNum 3)))"
proof -
  have a: "\<And>x. case add_one x of Return y \<Rightarrow> plain y | Throw e \<Rightarrow> True"
    by (simp add: add_one_def plain_def split: jsvalue.splits json.splits)
  have b: "\<And>x. case add_one x of Return z \<Rightarrow> known example_world z | Throw e \<Rightarrow> True"
    by (simp add: add_one_def known_def split: jsvalue.splits json.splits)
  have chain: "state_after (snd (settle_after (then_then example_future (User ''a'' add_one) (User ''b'' add_one))
        (promise example_future) (Succeeds (Data (JNum 1))) example_world))
      (promise (fst (settle_after (then_then example_future (User ''a'' add_one) (User ''b'' add_one))
        (promise example_future) (Succeeds (Data (JNum 1))) example_world)))
     = Some (Fulfilled (Data (JNum 3)))"
    by (simp add: example_defs scenario_defs step_defs add_one_def Let_def drain_simps)
  show ?thesis
    using then_then_is_then_composed [where w = example_world and f = example_future
        and a = add_one and b = add_one and v = "Data (JNum 1)" and na = "''a''" and nb = "''b''"
        and nc = "''ab''" and e = "Err ''offline''" and h = NoHandler, OF in_flight_example a b]
      in_flight_example chain
    by (simp add: split_def plain_def)
qed

text \<open>
  The claim fails where \<open>a\<close> returns a promise. Let \<open>a\<close> return the promise that is
  fulfilled with 1 and let \<open>b\<close> add one to a number and throw on anything else. In
  \<open>f.then$(a).then$(b)\<close> the handler \<open>b\<close> receives 1 and the future succeeds with 2; in
  \<open>f.then$(x => b(a(x)))\<close> the handler \<open>b\<close> receives the promise and the future fails.
\<close>

theorem then_composed_differs_on_promise:
  "state_after (snd (settle_after (then_then example_future (User ''a'' returns_promise_one) (User ''b'' add_one))
        (promise example_future) (Succeeds (Resp ok_response)) one_world))
      (promise (fst (settle_after (then_then example_future (User ''a'' returns_promise_one) (User ''b'' add_one))
        (promise example_future) (Succeeds (Resp ok_response)) one_world)))
     = Some (Fulfilled (Data (JNum 2))) \<and>
   state_after (snd (settle_after (then_S example_future (User ''ab'' (composed returns_promise_one add_one)))
        (promise example_future) (Succeeds (Resp ok_response)) one_world))
      (promise (fst (settle_after (then_S example_future (User ''ab'' (composed returns_promise_one add_one)))
        (promise example_future) (Succeeds (Resp ok_response)) one_world)))
     = Some (Rejected (Err ''TypeError''))"
  by (simp add: one_world_def promise_resolve_def example_defs scenario_defs step_defs add_one_def
      returns_promise_one_def Let_def drain_simps)

end
